theory Spec2Isabelle
  imports Complex_Main "HOL-Library.Log_Nat"
begin

section \<open>Python values used by latlongrid.py\<close>

text \<open>
  Every \<open>raise\<close> of the source, and every exception a Python builtin raises on the way,
  is a value of this type; a function that can fail returns \<open>error + 'a\<close>.
\<close>

datatype error =
    ValueError
  | AttributeError
  | UnboundLocalError
  | KeyError
  | OverflowError
  | ZeroDivisionError
  | Warning

subsection \<open>Binary64 floating point\<close>

text \<open>
  A finite Python \<open>float\<close> is modelled by the rational number it denotes. \<open>fl\<close> rounds a
  rational to the nearest binary64 value, ties to even, with 53 bits of precision and the
  exponent bounded below by the subnormal range; this is what a float literal, and each
  correctly rounded arithmetic operation, returns. A result whose rounded magnitude
  reaches \<open>2 ^ 1024\<close> is an infinity, tested by \<open>overflows\<close>.
\<close>

type_synonym double = rat

definition round_half_even :: "rat \<Rightarrow> int" where
  "round_half_even x =
     (let f = \<lfloor>x\<rfloor>; r = x - of_int f
      in if r < 1 / 2 then f else if 1 / 2 < r then f + 1 else if even f then f else f + 1)"

definition pow2 :: "int \<Rightarrow> rat" where
  "pow2 e = (if 0 \<le> e then 2 ^ nat e else 1 / 2 ^ nat (- e))"

definition ilog2 :: "rat \<Rightarrow> int" where
  "ilog2 x =
     (if 1 \<le> \<bar>x\<bar> then int (floorlog 2 (nat \<lfloor>\<bar>x\<bar>\<rfloor>)) - 1
      else - int (floorlog 2 (nat (\<lceil>1 / \<bar>x\<bar>\<rceil> - 1))))"

definition fl :: "rat \<Rightarrow> double" where
  "fl x =
     (if x = 0 then 0
      else let e = max (ilog2 x - 52) (- 1074)
           in of_int (round_half_even (x / pow2 e)) * pow2 e)"

definition overflows :: "rat \<Rightarrow> bool" where
  "overflows x = (2 ^ 1024 \<le> \<bar>fl x\<bar>)"

text \<open>The float literal \<open>n\<close>e\<open>-k\<close>, e.g. \<open>0.0016\<close> is \<open>float_lit 16 4\<close>.\<close>

definition float_lit :: "int \<Rightarrow> nat \<Rightarrow> double" where
  "float_lit n k = fl (of_int n / 10 ^ k)"

text \<open>\<open>int(x)\<close> on a float truncates toward zero; \<open>round(x)\<close> rounds half to even.\<close>

definition py_trunc :: "double \<Rightarrow> int" where
  "py_trunc x = (if 0 \<le> x then \<lfloor>x\<rfloor> else \<lceil>x\<rceil>)"

definition py_round :: "double \<Rightarrow> int" where
  "py_round x = round_half_even x"

text \<open>
  \<open>x % y\<close> on floats takes the sign of the divisor; \<open>fmod\<close> is exact, so for the
  integer-valued operands it meets here the result is the exact remainder.
\<close>

definition py_fmod :: "double \<Rightarrow> double \<Rightarrow> double" where
  "py_fmod x y = x - of_int \<lfloor>x / y\<rfloor> * y"

text \<open>What \<open>float(s)\<close> can return: beside the finite values, the infinities and NaN.\<close>

datatype pyfloat = Finite double | PosInf | NegInf | NaN

subsection \<open>Strings\<close>

text \<open>
  A Python \<open>str\<close> is modelled as a \<open>string\<close> of ASCII characters: \<open>len\<close> is \<open>length\<close>,
  a slice \<open>s[a:b]\<close> is \<open>take (b - a) (drop a s)\<close>.
\<close>

definition slice :: "nat \<Rightarrow> nat \<Rightarrow> string \<Rightarrow> string" where
  "slice a b s = take (b - a) (drop a s)"

definition is_space :: "char \<Rightarrow> bool" where
  "is_space c = ((of_char c :: nat) \<in> {9, 10, 11, 12, 13, 32})"

definition is_digit :: "char \<Rightarrow> bool" where
  "is_digit c = (48 \<le> (of_char c :: nat) \<and> (of_char c :: nat) \<le> 57)"

definition digit_val :: "char \<Rightarrow> nat" where
  "digit_val c = of_char c - 48"

definition digit_char :: "nat \<Rightarrow> char" where
  "digit_char d = ''0123456789'' ! d"

definition strip :: "string \<Rightarrow> string" where
  "strip s = rev (dropWhile is_space (rev (dropWhile is_space s)))"

text \<open>\<open>str(n)\<close> for an integer, \<open>s.rjust(w, c)\<close>, and the format \<open>{:03d}\<close>.\<close>

fun digits_of :: "nat \<Rightarrow> string" where
  "digits_of n = (if n < 10 then [digit_char n] else digits_of (n div 10) @ [digit_char (n mod 10)])"

declare digits_of.simps [simp del]

definition py_str :: "int \<Rightarrow> string" where
  "py_str n = (if n < 0 then CHR ''-'' # digits_of (nat (- n)) else digits_of (nat n))"

definition rjust :: "nat \<Rightarrow> char \<Rightarrow> string \<Rightarrow> string" where
  "rjust w c s = replicate (w - length s) c @ s"

definition format_03d :: "int \<Rightarrow> string" where
  "format_03d n =
     (if n < 0 then CHR ''-'' # rjust 2 (CHR ''0'') (digits_of (nat (- n)))
      else rjust 3 (CHR ''0'') (digits_of (nat n)))"

text \<open>
  The digit part of a numeric literal handed to \<open>int\<close> or \<open>float\<close>: decimal digits, with
  single underscores allowed between two digits.
\<close>

fun digitpart :: "nat \<Rightarrow> string \<Rightarrow> nat option" where
  "digitpart acc [] = Some acc"
| "digitpart acc (c # cs) =
     (if is_digit c then digitpart (10 * acc + digit_val c) cs
      else if c = CHR ''_'' then
        (case cs of
           [] \<Rightarrow> None
         | d # ds \<Rightarrow> if is_digit d then digitpart (10 * acc + digit_val d) ds else None)
      else None)"

definition py_digits :: "string \<Rightarrow> nat option" where
  "py_digits s =
     (case s of
        [] \<Rightarrow> None
      | c # cs \<Rightarrow> if is_digit c then digitpart (digit_val c) cs else None)"

definition split_sign :: "string \<Rightarrow> int \<times> string" where
  "split_sign s =
     (case s of
        [] \<Rightarrow> (1, [])
      | c # cs \<Rightarrow> if c = CHR ''+'' then (1, cs) else if c = CHR ''-'' then (- 1, cs) else (1, s))"

text \<open>\<open>int(s)\<close> in base ten: surrounding whitespace, an optional sign, a digit part.\<close>

definition py_int :: "string \<Rightarrow> error + int" where
  "py_int s =
     (let (sg, body) = split_sign (strip s)
      in case py_digits body of
           None \<Rightarrow> Inl ValueError
         | Some n \<Rightarrow> Inr (sg * int n))"

text \<open>
  \<open>float(s)\<close>: surrounding whitespace, an optional sign, then \<open>inf\<close>, \<open>infinity\<close> or
  \<open>nan\<close> in any letter case, or a decimal number with an optional fraction and an
  optional exponent. The value is correctly rounded.
\<close>

definition ci_match :: "string \<Rightarrow> string \<Rightarrow> bool" where
  "ci_match pat s =
     (length pat = length s \<and>
      list_all2 (\<lambda>p c. c = p \<or> (of_char c :: nat) + 32 = of_char p) pat s)"

definition is_exp_mark :: "char \<Rightarrow> bool" where
  "is_exp_mark c = (c = CHR ''e'' \<or> c = CHR ''E'')"

definition is_point :: "char \<Rightarrow> bool" where
  "is_point c = (c = CHR ''.'')"

text \<open>The mantissa: its value as an integer and the number of fraction digits.\<close>

definition py_mantissa :: "string \<Rightarrow> (nat \<times> nat) option" where
  "py_mantissa m =
     (let ip = takeWhile (\<lambda>c. \<not> is_point c) m; rest = dropWhile (\<lambda>c. \<not> is_point c) m
      in case rest of
           [] \<Rightarrow> map_option (\<lambda>n. (n, 0)) (py_digits ip)
         | _ # fp \<Rightarrow>
             (let k = length (filter is_digit fp)
              in if ip = [] then map_option (\<lambda>f. (f, k)) (py_digits fp)
                 else if fp = [] then map_option (\<lambda>n. (n, 0)) (py_digits ip)
                 else (case (py_digits ip, py_digits fp) of
                         (Some n, Some f) \<Rightarrow> Some (n * 10 ^ k + f, k)
                       | _ \<Rightarrow> None)))"

definition py_exponent :: "string \<Rightarrow> int option" where
  "py_exponent x =
     (case x of
        [] \<Rightarrow> Some 0
      | _ # ex \<Rightarrow>
          (let (sg, body) = split_sign ex
           in map_option (\<lambda>n. sg * int n) (py_digits body)))"

definition pow10 :: "int \<Rightarrow> rat" where
  "pow10 e = (if 0 \<le> e then 10 ^ nat e else 1 / 10 ^ nat (- e))"

definition py_float :: "string \<Rightarrow> error + pyfloat" where
  "py_float s =
     (let (sg, body) = split_sign (strip s)
      in if ci_match ''inf'' body \<or> ci_match ''infinity'' body
         then Inr (if 0 < sg then PosInf else NegInf)
         else if ci_match ''nan'' body then Inr NaN
         else
           (let m = takeWhile (\<lambda>c. \<not> is_exp_mark c) body;
                x = dropWhile (\<lambda>c. \<not> is_exp_mark c) body
            in case (py_mantissa m, py_exponent x) of
                 (Some (n, k), Some e) \<Rightarrow>
                   (let v = of_int sg * of_nat n / 10 ^ k * pow10 e
                    in if overflows v then Inr (if 0 < v then PosInf else NegInf)
                       else Inr (Finite (fl v)))
               | _ \<Rightarrow> Inl ValueError))"

text \<open>\<open>s.split(c)[-1]\<close>: what follows the last occurrence of \<open>c\<close>, or all of \<open>s\<close>.\<close>

definition split_last :: "char \<Rightarrow> string \<Rightarrow> string" where
  "split_last c s = rev (takeWhile (\<lambda>d. d \<noteq> c) (rev s))"

text \<open>Comparison of two \<open>str\<close> values with \<open>>=\<close>: lexicographic on the code points.\<close>

fun str_ge :: "string \<Rightarrow> string \<Rightarrow> bool" where
  "str_ge _ [] = True"
| "str_ge [] (_ # _) = False"
| "str_ge (a # as) (b # bs) =
     (if (of_char a :: nat) = of_char b then str_ge as bs else (of_char b :: nat) < of_char a)"

text \<open>
  \<open>numpy.isclose(a, b)\<close> with the default tolerances, on a finite \<open>b\<close>:
  \<open>abs(a - b) <= atol + rtol * abs(b)\<close>, each operation rounded; an infinite or NaN
  \<open>a\<close> is never close.
\<close>

definition isclose :: "pyfloat \<Rightarrow> double \<Rightarrow> bool" where
  "isclose a b =
     (case a of
        Finite x \<Rightarrow> \<bar>fl (x - b)\<bar> \<le> fl (float_lit 1 8 + fl (float_lit 1 5 * \<bar>b\<bar>))
      | _ \<Rightarrow> False)"

section \<open>LatLonGrid\<close>

text \<open>\<open>LatLonGrid._static_sampling\<close>.\<close>

definition static_sampling :: "double list" where
  "static_sampling =
     [float_lit 1 4, float_lit 16 5, float_lit 2 4, float_lit 3 4, float_lit 4 4,
      float_lit 5 4, float_lit 6 4, float_lit 8 4, float_lit 1 3, float_lit 16 4,
      float_lit 2 3, float_lit 3 3, float_lit 4 3, float_lit 5 3, float_lit 6 3,
      float_lit 8 3, float_lit 1 2]"

text \<open>
  \<open>int(sampling * c)\<close> for a float \<open>sampling\<close> and a float constant \<open>c\<close>: the product is
  rounded, an infinite product makes \<open>int\<close> raise \<open>OverflowError\<close>.
\<close>

definition int_of_product :: "double \<Rightarrow> double \<Rightarrow> error + int" where
  "int_of_product x c =
     (if overflows (x * c) then Inl OverflowError else Inr (py_trunc (fl (x * c))))"

definition encode_sampling :: "double \<Rightarrow> error + string" where
  "encode_sampling sampling =
     (case (if sampling < float_lit 1 3
            then map_sum id (\<lambda>n. (n, CHR ''U'')) (int_of_product sampling (10 ^ 6))
            else if sampling < 1
            then map_sum id (\<lambda>n. (n, CHR ''M'')) (int_of_product sampling (10 ^ 3))
            else Inr (py_trunc sampling, CHR ''D'')) of
        Inl e \<Rightarrow> Inl e
      | Inr (sampling_scaled, order_tag) \<Rightarrow>
          (let sampling_str = rjust 3 (CHR ''0'') (py_str sampling_scaled) @ [order_tag]
           in if 4 < length sampling_str then Inl ValueError else Inr sampling_str))"

definition scale_float :: "pyfloat \<Rightarrow> double \<Rightarrow> pyfloat" where
  "scale_float f c = (case f of Finite x \<Rightarrow> Finite (fl (x * c)) | _ \<Rightarrow> f)"

definition decode_sampling :: "string \<Rightarrow> error + pyfloat" where
  "decode_sampling sampling_str =
     (if length sampling_str \<noteq> 4 then Inl ValueError
      else
        (case (if CHR ''U'' \<in> set sampling_str then Some (float_lit 1 6)
               else if CHR ''M'' \<in> set sampling_str then Some (float_lit 1 3)
               else if CHR ''D'' \<in> set sampling_str then Some 1
               else None) of
           None \<Rightarrow> Inl ValueError
         | Some scale_factor \<Rightarrow>
             (case py_float (butlast sampling_str) of
                Inl e \<Rightarrow> Inl e
              | Inr f \<Rightarrow> Inr (scale_float f scale_factor))))"

text \<open>
  \<open>get_tiletype(sampling)\<close> with a sampling given. \<open>scaled_sampling\<close> is
  \<open>int(round(sampling * 1e4))\<close>; \<open>round\<close> of an infinity raises \<open>OverflowError\<close>.
\<close>

definition scaled_sampling :: "double \<Rightarrow> error + int" where
  "scaled_sampling sampling =
     (if overflows (sampling * 10 ^ 4) then Inl OverflowError
      else Inr (py_round (fl (sampling * 10 ^ 4))))"

definition get_tiletype :: "double \<Rightarrow> error + string" where
  "get_tiletype sampling =
     (case scaled_sampling sampling of
        Inl e \<Rightarrow> Inl e
      | Inr sampling_scaled \<Rightarrow>
          (let scale_factor = 10 ^ 4
           in if (1 \<le> sampling_scaled \<and> sampling_scaled < 3) \<and>
                 py_fmod (1 * scale_factor) (of_int sampling_scaled) = 0 then Inr ''T1''
              else if (3 \<le> sampling_scaled \<and> sampling_scaled < 6) \<and>
                 py_fmod (3 * scale_factor) (of_int sampling_scaled) = 0 then Inr ''T3''
              else if (6 \<le> sampling_scaled \<and> sampling_scaled < 20) \<and>
                 py_fmod (6 * scale_factor) (of_int sampling_scaled) = 0 then Inr ''T6''
              else if (20 \<le> sampling_scaled \<and> sampling_scaled < 101) \<and>
                 py_fmod (18 * scale_factor) (of_int sampling_scaled) = 0 then Inr ''T18''
              else Inl ValueError))"

definition tilesize_of :: "string \<Rightarrow> error + int" where
  "tilesize_of tilecode =
     (if tilecode = ''T18'' then Inr 18
      else if tilecode = ''T6'' then Inr 6
      else if tilecode = ''T3'' then Inr 3
      else if tilecode = ''T1'' then Inr 1
      else Inl KeyError)"

definition get_tilesize :: "double \<Rightarrow> error + int \<times> int" where
  "get_tilesize sampling =
     (case get_tiletype sampling of
        Inl e \<Rightarrow> Inl e
      | Inr tc \<Rightarrow>
          (case tilesize_of tc of
             Inl e \<Rightarrow> Inl e
           | Inr sz \<Rightarrow> Inr (sz, sz)))"

text \<open>
  The core properties of a grid: the \<open>TPSCoreProperty\<close> object of the base library,
  with the fields the tiling system reads.
\<close>

record core =
  tag :: string
  sampling :: double
  tiletype :: string
  tile_xsize_m :: int
  tile_ysize_m :: int

text \<open>
  The static dataset, \<open>LatLonGrid._static_data\<close>: for each subgrid acronym the
  \<open>coverland\<close> dictionary, which maps a tilecode to the short names of its land tiles.
\<close>

type_synonym static_data = "string \<Rightarrow> (string \<Rightarrow> string list option) option"

text \<open>
  \<open>LatLonSubgrid.__init__\<close>: the core of the subgrid, which is also the core of its
  tiling system, is a copy of the grid's core whose tag is the region.
\<close>

definition LatLonSubgrid :: "static_data \<Rightarrow> core \<Rightarrow> string \<Rightarrow> error + core" where
  "LatLonSubgrid data c region =
     (case data region of
        None \<Rightarrow> Inl KeyError
      | Some _ \<Rightarrow>
          (case encode_sampling (sampling c) of
             Inl e \<Rightarrow> Inl e
           | Inr _ \<Rightarrow> Inr (c\<lparr>tag := region\<rparr>)))"

text \<open>\<open>define_subgrids\<close>: the dictionary of the subgrids; the only subgrid is \<open>GL\<close>.\<close>

definition static_subgrid_ids :: "string list" where
  "static_subgrid_ids = [''GL'']"

fun build_subgrids :: "static_data \<Rightarrow> core \<Rightarrow> string list \<Rightarrow> error + (string \<times> core) list" where
  "build_subgrids data c [] = Inr []"
| "build_subgrids data c (sg # sgs) =
     (case LatLonSubgrid data c sg of
        Inl e \<Rightarrow> Inl e
      | Inr sc \<Rightarrow>
          (case build_subgrids data c sgs of
             Inl e \<Rightarrow> Inl e
           | Inr rest \<Rightarrow> Inr ((sg, sc) # rest)))"

definition define_subgrids :: "static_data \<Rightarrow> core \<Rightarrow> error + (string \<times> core) list" where
  "define_subgrids data c = build_subgrids data c static_subgrid_ids"

text \<open>
  \<open>LatLonGrid.__init__\<close>. The constructor of the base class \<open>TiledProjectionSystem\<close>
  derives the tiletype and the tile size from the sampling with \<open>get_tiletype\<close> and
  \<open>get_tilesize\<close>, stores them in the core and defines the subgrids.
\<close>

record grid =
  grid_core :: core
  subgrids :: "(string \<times> core) list"

definition LatLonGrid :: "static_data \<Rightarrow> double \<Rightarrow> error + grid" where
  "LatLonGrid data smp =
     (if smp \<notin> set static_sampling then Inl ValueError
      else
        (case get_tiletype smp of
           Inl e \<Rightarrow> Inl e
         | Inr tt \<Rightarrow>
             (case get_tilesize smp of
                Inl e \<Rightarrow> Inl e
              | Inr (xs, ys) \<Rightarrow>
                  (let c = \<lparr>tag = ''LatLon'', sampling = smp, tiletype = tt,
                            tile_xsize_m = xs, tile_ysize_m = ys\<rparr>
                   in case define_subgrids data c of
                        Inl e \<Rightarrow> Inl e
                      | Inr sgs \<Rightarrow> Inr \<lparr>grid_core = c, subgrids = sgs\<rparr>))))"

text \<open>\<open>g.subgrids[region].tilesys\<close>, by its core.\<close>

definition tilesys :: "grid \<Rightarrow> string \<Rightarrow> error + core" where
  "tilesys g region =
     (case map_of (subgrids g) region of None \<Rightarrow> Inl KeyError | Some sc \<Rightarrow> Inr sc)"

section \<open>LatLonTilingSystem\<close>

text \<open>
  Floor division of a float by the integer tile size. The quotients met here are far
  below \<open>2 ^ 53\<close>, where the result is the exact floor.
\<close>

definition py_floordiv :: "double \<Rightarrow> int \<Rightarrow> error + double" where
  "py_floordiv x y =
     (if y = 0 then Inl ZeroDivisionError else Inr (fl (of_int \<lfloor>x / of_int y\<rfloor>)))"

definition round_coord :: "double \<Rightarrow> int \<Rightarrow> int \<Rightarrow> error + double" where
  "round_coord x shift tilesize =
     (case py_floordiv (fl (x + of_int shift)) tilesize of
        Inl e \<Rightarrow> Inl e
      | Inr q \<Rightarrow> Inr (fl (fl (q * of_int tilesize) - of_int shift)))"

definition round_lonlat2lowerleft :: "core \<Rightarrow> double \<Rightarrow> double \<Rightarrow> error + double \<times> double" where
  "round_lonlat2lowerleft c lon lat =
     (case round_coord lon 180 (tile_xsize_m c) of
        Inl e \<Rightarrow> Inl e
      | Inr ll_lon \<Rightarrow>
          (case round_coord lat 90 (tile_ysize_m c) of
             Inl e \<Rightarrow> Inl e
           | Inr ll_lat \<Rightarrow> Inr (ll_lon, ll_lat)))"

type_synonym decoded = "string \<times> double \<times> int \<times> int \<times> int \<times> string"

text \<open>The lower-left coordinate read from three characters of the name.\<close>

definition decode_coord :: "string \<Rightarrow> int \<Rightarrow> int \<Rightarrow> error + int" where
  "decode_coord digits shift tf =
     (case py_int digits of
        Inl e \<Rightarrow> Inl e
      | Inr v \<Rightarrow>
          (let ll = v - shift
           in if tf = 0 then Inl ZeroDivisionError
              else if ll mod tf \<noteq> 0 then Inl ValueError
              else Inr ll))"

definition decode_tilename :: "core \<Rightarrow> string \<Rightarrow> error + decoded" where
  "decode_tilename c tilename =
     (let tf = tile_ysize_m c
      in if length tilename \<in> {10, 11} then
           (case py_int (split_last (CHR ''T'') tilename) of
              Inl e \<Rightarrow> Inl e
            | Inr tile_size_d \<Rightarrow>
                if tile_size_d \<noteq> tile_xsize_m c then Inl ValueError
                else
                  (case decode_coord (slice 1 4 tilename) 180 tf of
                     Inl e \<Rightarrow> Inl e
                   | Inr ll_lon \<Rightarrow>
                       (case decode_coord (slice 5 8 tilename) 90 tf of
                          Inl e \<Rightarrow> Inl e
                        | Inr ll_lat \<Rightarrow>
                            (let tilecode = ''T'' @ split_last (CHR ''T'') tilename
                             in if tilecode \<noteq> tiletype c then Inl ValueError
                                else Inr (tag c, sampling c, tile_size_d, ll_lon, ll_lat,
                                          tilecode)))))
         else if length tilename \<in> {17, 18} then
           (let subgrid_id = slice 0 2 tilename
            in if subgrid_id \<noteq> tag c then Inl ValueError
               else
                 (case decode_sampling (slice 2 6 tilename) of
                    Inl e \<Rightarrow> Inl e
                  | Inr smp \<Rightarrow>
                      if \<not> isclose smp (sampling c) then Inl ValueError
                      else
                        (case py_int (split_last (CHR ''T'') tilename) of
                           Inl e \<Rightarrow> Inl e
                         | Inr tile_size_d \<Rightarrow>
                             if tile_size_d \<noteq> tile_xsize_m c then Inl ValueError
                             else
                               (case decode_coord (slice 8 11 tilename) 180 tf of
                                  Inl e \<Rightarrow> Inl e
                                | Inr ll_lon \<Rightarrow>
                                    (case decode_coord (slice 12 15 tilename) 90 tf of
                                       Inl e \<Rightarrow> Inl e
                                     | Inr ll_lat \<Rightarrow>
                                         (let tilecode =
                                                ''T'' @ split_last (CHR ''T'') tilename
                                          in if tilecode \<noteq> tiletype c then Inl ValueError
                                             else
                                               (case smp of
                                                  Finite x \<Rightarrow>
                                                    Inr (subgrid_id, x, tile_size_d, ll_lon,
                                                         ll_lat, tilecode)
                                                | _ \<Rightarrow> Inl ValueError)))))))
         else Inl ValueError)"

definition check_tilename :: "core \<Rightarrow> string \<Rightarrow> error + bool" where
  "check_tilename c tilename =
     (case decode_tilename c tilename of Inl e \<Rightarrow> Inl e | Inr _ \<Rightarrow> Inr True)"

text \<open>
  \<open>tilename2short\<close> binds \<open>shortform\<close> only for a name of 17 characters; for every other
  name that passes the check, the \<open>return\<close> reads an unbound local variable.
\<close>

definition tilename2short :: "core \<Rightarrow> string \<Rightarrow> error + string" where
  "tilename2short c longform =
     (case check_tilename c longform of
        Inl e \<Rightarrow> Inl e
      | Inr _ \<Rightarrow> if length longform = 17 then Inr (drop 7 longform) else Inl UnboundLocalError)"

definition tilename2lowerleft :: "core \<Rightarrow> string \<Rightarrow> error + int \<times> int" where
  "tilename2lowerleft c tilename =
     (case decode_tilename c tilename of
        Inl e \<Rightarrow> Inl e
      | Inr (_, _, _, ll_lon, ll_lat, _) \<Rightarrow> Inr (ll_lon, ll_lat))"

text \<open>
  \<open>encode_tilename\<close>. The lower-left coordinates arrive as integers or as floats and
  pass through \<open>int\<close>.
\<close>

definition encode_tilename ::
  "core \<Rightarrow> rat \<Rightarrow> rat \<Rightarrow> double \<Rightarrow> string \<Rightarrow> bool \<Rightarrow> error + string" where
  "encode_tilename c ll_lon ll_lat smp tilecode shortform =
     (case encode_sampling smp of
        Inl e \<Rightarrow> Inl e
      | Inr code \<Rightarrow>
          (let tilename = tag c @ code @ ''_E'' @ format_03d (py_trunc ll_lon + 180) @ ''N''
                          @ format_03d (py_trunc ll_lat + 90) @ tilecode
           in if shortform then tilename2short c tilename else Inr tilename))"

definition encode_tilename' :: "core \<Rightarrow> rat \<Rightarrow> rat \<Rightarrow> bool \<Rightarrow> error + string" where
  "encode_tilename' c ll_lon ll_lat shortform =
     encode_tilename c ll_lon ll_lat (sampling c) (tiletype c) shortform"

definition point2tilename :: "core \<Rightarrow> double \<Rightarrow> double \<Rightarrow> bool \<Rightarrow> error + string" where
  "point2tilename c lon lat shortform =
     (case round_lonlat2lowerleft c lon lat of
        Inl e \<Rightarrow> Inl e
      | Inr (ll_lon, ll_lat) \<Rightarrow> encode_tilename' c ll_lon ll_lat shortform)"

definition list_tiles_covering_land :: "static_data \<Rightarrow> core \<Rightarrow> error + string list" where
  "list_tiles_covering_land data c =
     (case data (tag c) of
        None \<Rightarrow> Inl KeyError
      | Some coverland \<Rightarrow>
          (case coverland (tiletype c) of
             None \<Rightarrow> Inl KeyError
           | Some land_tiles \<Rightarrow> Inr land_tiles))"

definition check_tile_covers_land :: "static_data \<Rightarrow> core \<Rightarrow> string \<Rightarrow> error + bool" where
  "check_tile_covers_land data c tilename =
     (case list_tiles_covering_land data c of
        Inl e \<Rightarrow> Inl e
      | Inr land_tiles \<Rightarrow>
          (case check_tilename c tilename of
             Inl e \<Rightarrow> Inl e
           | Inr _ \<Rightarrow>
               (case tilename2short c tilename of
                  Inl e \<Rightarrow> Inl e
                | Inr short \<Rightarrow> Inr (short \<in> set land_tiles))))"

text \<open>
  \<open>LatLonTile\<close>: the tile object \<open>create_tile\<close> returns.
\<close>

record LatLonTile =
  tile_core :: core
  tile_name :: string
  tile_ll_lon :: rat
  tile_ll_lat :: rat
  covers_land :: bool

text \<open>
  The first part of \<open>create_tile\<close>: which of the two input forms is used; every other
  combination of arguments raises \<open>AttributeError\<close>.
\<close>

fun tile_lowerleft ::
  "core \<Rightarrow> string option \<Rightarrow> double option \<Rightarrow> double option \<Rightarrow> error + rat \<times> rat" where
  "tile_lowerleft c None (Some lon) (Some lat) = round_lonlat2lowerleft c lon lat"
| "tile_lowerleft c (Some name) None None =
     map_sum id (map_prod of_int of_int) (tilename2lowerleft c name)"
| "tile_lowerleft c _ _ _ = Inl AttributeError"

definition create_tile ::
  "static_data \<Rightarrow> core \<Rightarrow> string option \<Rightarrow> double option \<Rightarrow> double option
     \<Rightarrow> error + LatLonTile" where
  "create_tile data c name lon lat =
     (case tile_lowerleft c name lon lat of
        Inl e \<Rightarrow> Inl e
      | Inr (ll_lon, ll_lat) \<Rightarrow>
          (case encode_tilename' c ll_lon ll_lat False of
             Inl e \<Rightarrow> Inl e
           | Inr nm \<Rightarrow>
               (case check_tile_covers_land data c nm of
                  Inl e \<Rightarrow> Inl e
                | Inr cl \<Rightarrow>
                    Inr \<lparr>tile_core = c, tile_name = nm, tile_ll_lon = ll_lon,
                         tile_ll_lat = ll_lat, covers_land = cl\<rparr>)))"

subsection \<open>Family tiles\<close>

text \<open>
  The input check of \<open>find_overlapping_tilenames\<close>. The result \<open>None\<close> stands for the
  local variable \<open>sampling\<close> left unbound, which is the case when both arguments are
  \<open>None\<close>.
\<close>

definition search_sampling :: "double option \<Rightarrow> string option \<Rightarrow> error + double option" where
  "search_sampling target_sampling target_tiletype =
     (case (target_sampling, target_tiletype) of
        (Some s, None) \<Rightarrow> Inr (Some s)
      | (None, Some tt) \<Rightarrow>
          if tt = ''T1'' then Inr (Some (float_lit 1 4))
          else if tt = ''T3'' then Inr (Some (float_lit 3 4))
          else if tt = ''T6'' then Inr (Some (float_lit 6 4))
          else if tt = ''T6'' then Inr (Some (float_lit 2 3))
          else Inl ValueError
      | (Some s, Some _) \<Rightarrow> Inr (Some s)
      | (None, None) \<Rightarrow> Inr None)"

text \<open>A loop that appends one name per element and stops at the first exception.\<close>

fun append_names :: "('a \<Rightarrow> error + string) \<Rightarrow> 'a list \<Rightarrow> error + string list" where
  "append_names f [] = Inr []"
| "append_names f (x # xs) =
     (case f x of
        Inl e \<Rightarrow> Inl e
      | Inr nm \<Rightarrow>
          (case append_names f xs of
             Inl e \<Rightarrow> Inl e
           | Inr nms \<Rightarrow> Inr (nm # nms)))"

definition family_name ::
  "grid \<Rightarrow> core \<Rightarrow> double \<Rightarrow> bool \<Rightarrow> int \<times> int \<Rightarrow> error + string" where
  "family_name target_grid c smp shortform ll =
     (case tilesys target_grid (tag c) of
        Inl e \<Rightarrow> Inl e
      | Inr tc \<Rightarrow>
          encode_tilename tc (of_int (fst ll)) (of_int (snd ll)) smp
            (tiletype (grid_core target_grid)) shortform)"

definition find_overlapping_tilenames ::
  "static_data \<Rightarrow> core \<Rightarrow> string \<Rightarrow> double option \<Rightarrow> string option \<Rightarrow> error + string list" where
  "find_overlapping_tilenames data c tilename target_sampling target_tiletype =
     (let shortform = (target_sampling = None)
      in case search_sampling target_sampling target_tiletype of
           Inl e \<Rightarrow> Inl e
         | Inr None \<Rightarrow> Inl UnboundLocalError
         | Inr (Some smp) \<Rightarrow>
             (case LatLonGrid data smp of
                Inl e \<Rightarrow> Inl e
              | Inr target_grid \<Rightarrow>
                  (let target_tt = tiletype (grid_core target_grid);
                       target_tilesize = tile_xsize_m (grid_core target_grid)
                   in case decode_tilename c tilename of
                        Inl e \<Rightarrow> Inl e
                      | Inr (_, src_sampling, src_tilesize_d, src_ll_lon, src_ll_lat,
                             src_tiletype) \<Rightarrow>
                          if target_tilesize = 0 then Inl ZeroDivisionError
                          else if str_ge target_tt src_tiletype then
                            (let t_east = (src_ll_lon + 180) div target_tilesize
                                            * target_tilesize - 180;
                                 t_north = (src_ll_lat + 90) div target_tilesize
                                             * target_tilesize - 90
                             in append_names (family_name target_grid c smp shortform)
                                  [(t_east, t_north)])
                          else
                            (let n = nat (src_tilesize_d div target_tilesize)
                             in append_names
                                  (\<lambda>(lon, lat).
                                     family_name target_grid c smp shortform
                                       (src_ll_lon + int lon * target_tilesize,
                                        src_ll_lat + int lat * target_tilesize))
                                  (List.product [0..<n] [0..<n])))))"

subsection \<open>Spatial search\<close>

text \<open>
  What \<open>search_tiles_in_geometry\<close> asks of the geometry library about the region of
  interest: whether it intersects the zone of the subgrid, whether its spatial
  reference is projected, the envelope \<open>(min lon, max lon, min lat, max lat)\<close> of the
  intersection, and whether the intersection meets the extent
  \<open>(lon, lat, lon + size, lat + size)\<close> of a tile.
\<close>

record geometry =
  intersects_zone :: bool
  is_projected :: bool
  envelope :: "double \<times> double \<times> double \<times> double"
  meets_extent :: "int \<times> int \<times> int \<times> int \<Rightarrow> bool"

text \<open>\<open>numpy.arange(start, stop, step)\<close> on integers, for a positive step.\<close>

definition arange :: "int \<Rightarrow> int \<Rightarrow> int \<Rightarrow> int list" where
  "arange start stop step =
     map (\<lambda>i. start + int i * step) [0..<nat (- ((start - stop) div step))]"

definition candidate_lattice :: "core \<Rightarrow> double \<times> double \<times> double \<times> double \<Rightarrow> (int \<times> int) list" where
  "candidate_lattice c env =
     (case env of
        (e0, e1, e2, e3) \<Rightarrow>
          (let lon_min = py_trunc e0 div tile_xsize_m c * tile_xsize_m c;
               lon_max = (py_trunc e1 div tile_xsize_m c + 1) * tile_xsize_m c;
               lat_min = py_trunc e2 div tile_ysize_m c * tile_ysize_m c;
               lat_max = (py_trunc e3 div tile_ysize_m c + 1) * tile_ysize_m c;
               lonr = arange lon_min (lon_max + tile_xsize_m c) (tile_xsize_m c);
               latr = arange lat_min (lat_max + tile_ysize_m c) (tile_ysize_m c)
           in List.product lonr latr))"

fun search_loop ::
  "static_data \<Rightarrow> core \<Rightarrow> geometry \<Rightarrow> bool \<Rightarrow> (int \<times> int) list \<Rightarrow> error + string list" where
  "search_loop data c geom coverland [] = Inr []"
| "search_loop data c geom coverland ((lon, lat) # rest) =
     (case (if meets_extent geom (lon, lat, lon + tile_xsize_m c, lat + tile_xsize_m c)
            then (case point2tilename c (of_int lon) (of_int lat) False of
                    Inl e \<Rightarrow> Inl e
                  | Inr ftile \<Rightarrow>
                      if \<not> coverland then Inr [ftile]
                      else (case check_tile_covers_land data c ftile of
                              Inl e \<Rightarrow> Inl e
                            | Inr cl \<Rightarrow> Inr (if cl then [ftile] else [])))
            else Inr []) of
        Inl e \<Rightarrow> Inl e
      | Inr found \<Rightarrow>
          (case search_loop data c geom coverland rest of
             Inl e \<Rightarrow> Inl e
           | Inr others \<Rightarrow> Inr (found @ others)))"

definition search_tiles_in_geometry ::
  "static_data \<Rightarrow> core \<Rightarrow> geometry \<Rightarrow> bool \<Rightarrow> error + string list" where
  "search_tiles_in_geometry data c geom coverland =
     (if \<not> intersects_zone geom then Inr []
      else if is_projected geom then Inl Warning
      else if tile_xsize_m c = 0 \<or> tile_ysize_m c = 0 then Inl ZeroDivisionError
      else search_loop data c geom coverland (candidate_lattice c (envelope geom)))"

section \<open>Derived notions used in the statements\<close>

text \<open>The tiling system \<open>LatLonGrid(smp).GL.tilesys\<close>, as the tests obtain it.\<close>

definition grid_tilesys :: "static_data \<Rightarrow> double \<Rightarrow> error + core" where
  "grid_tilesys data smp =
     (case LatLonGrid data smp of Inl e \<Rightarrow> Inl e | Inr g \<Rightarrow> tilesys g ''GL'')"

text \<open>\<open>decode_sampling(encode_sampling(smp))\<close>.\<close>

definition recode_sampling :: "double \<Rightarrow> error + pyfloat" where
  "recode_sampling smp =
     (case encode_sampling smp of Inl e \<Rightarrow> Inl e | Inr code \<Rightarrow> decode_sampling code)"

text \<open>\<open>decode_tilename(encode_tilename(ll_lon, ll_lat, sampling, tiletype, shortform))\<close>.\<close>

definition recode_tilename :: "core \<Rightarrow> int \<Rightarrow> int \<Rightarrow> bool \<Rightarrow> error + decoded" where
  "recode_tilename c ll_lon ll_lat shortform =
     (case encode_tilename c (of_int ll_lon) (of_int ll_lat) (sampling c) (tiletype c) shortform of
        Inl e \<Rightarrow> Inl e
      | Inr nm \<Rightarrow> decode_tilename c nm)"

text \<open>
  A small static dataset for the concrete runs: the subgrid \<open>GL\<close>, whose T6 land tiles
  are the four tiles that \<open>test_search_tiles_lon_lat_extent\<close> expects over the extent
  \<open>[0, 30, 10, 40]\<close>, and no land tile in the other classes.
\<close>

definition sample_data :: static_data where
  "sample_data =
     (\<lambda>region.
        if region = ''GL''
        then Some (\<lambda>tilecode.
               if tilecode = ''T6''
               then Some [''E180N120T6'', ''E186N120T6'', ''E180N126T6'', ''E186N126T6'']
               else if tilecode \<in> {''T1'', ''T3'', ''T18''} then Some []
               else None)
        else None)"

text \<open>
  A region of interest that is an axis-parallel rectangle \<open>(min lon, max lon, min lat,
  max lat)\<close> inside the zone of the subgrid: its envelope is the rectangle itself, and it
  meets a tile extent when the two closed rectangles have a common point.
\<close>

definition rectangle :: "double \<times> double \<times> double \<times> double \<Rightarrow> geometry" where
  "rectangle env =
     (case env of
        (x0, x1, y0, y1) \<Rightarrow>
          \<lparr>intersects_zone = True, is_projected = False, envelope = env,
           meets_extent =
             (\<lambda>(lon0, lat0, lon1, lat1).
                of_int lon0 \<le> x1 \<and> x0 \<le> of_int lon1 \<and> of_int lat0 \<le> y1 \<and> y0 \<le> of_int lat1)\<rparr>)"

text \<open>The lower-left corner of the tile of size \<open>t\<close> that contains a coordinate.\<close>

definition tile_floor :: "int \<Rightarrow> rat \<Rightarrow> int" where
  "tile_floor t x = \<lfloor>x / of_int t\<rfloor> * t"

lemma floor_rat_numeral: "\<lfloor>numeral a / numeral b :: rat\<rfloor> = numeral a div numeral b"
  using floor_divide_of_int_eq [of "numeral a" "numeral b", where ?'a = rat] by simp

lemma ceiling_rat_numeral: "\<lceil>numeral a / numeral b :: rat\<rceil> = - (- numeral a div numeral b)"
  using floor_divide_of_int_eq [of "- numeral a" "numeral b", where ?'a = rat]
  by (simp add: ceiling_def)

lemma floor_neg_rat_numeral: "\<lfloor>- (numeral a / numeral b) :: rat\<rfloor> = - numeral a div numeral b"
  using floor_divide_of_int_eq [of "- numeral a" "numeral b", where ?'a = rat] by simp

lemma ceiling_neg_rat_numeral: "\<lceil>- (numeral a / numeral b) :: rat\<rceil> = - (numeral a div numeral b)"
  by (simp add: ceiling_def floor_rat_numeral)

lemma floorlog2_numeral: "floorlog 2 (numeral n) = floorlog 2 (numeral n div 2) + 1"
  by (subst compute_floorlog) simp

lemma floorlog2_small: "floorlog 2 0 = 0" "floorlog 2 (Suc 0) = Suc 0" "floorlog 2 1 = 1"
  by (simp_all add: compute_floorlog)

lemmas fl_ev = fl_def ilog2_def pow2_def round_half_even_def Let_def
  floor_rat_numeral ceiling_rat_numeral floorlog2_numeral floorlog2_small

lemmas parse_ev = py_float_def py_int_def strip_def is_space_def split_sign_def ci_match_def
  is_exp_mark_def py_mantissa_def py_exponent_def is_point_def py_digits_def is_digit_def
  digit_val_def pow10_def overflows_def

lemma replicate_small: "replicate 2 c = [c, c]" "replicate 1 c = [c]" "replicate (Suc 0) c = [c]"
  by (simp_all add: numeral_2_eq_2)

lemma lit_vals:
  "float_lit 1 4 = 7378697629483821 / 73786976294838206464"
  "float_lit 16 5 = 5902958103587057 / 36893488147419103232"
  "float_lit 2 4 = 7378697629483821 / 36893488147419103232"
  "float_lit 3 4 = 5534023222112865 / 18446744073709551616"
  "float_lit 4 4 = 7378697629483821 / 18446744073709551616"
  "float_lit 5 4 = 1152921504606847 / 2305843009213693952"
  "float_lit 6 4 = 5534023222112865 / 9223372036854775808"
  "float_lit 8 4 = 7378697629483821 / 9223372036854775808"
  "float_lit 1 3 = 1152921504606847 / 1152921504606846976"
  "float_lit 16 4 = 7378697629483821 / 4611686018427387904"
  "float_lit 2 3 = 1152921504606847 / 576460752303423488"
  "float_lit 3 3 = 3458764513820541 / 1152921504606846976"
  "float_lit 4 3 = 1152921504606847 / 288230376151711744"
  "float_lit 5 3 = 5764607523034235 / 1152921504606846976"
  "float_lit 6 3 = 3458764513820541 / 576460752303423488"
  "float_lit 8 3 = 1152921504606847 / 144115188075855872"
  "float_lit 1 2 = 5764607523034235 / 576460752303423488"
  "float_lit 1 6 = 4722366482869645 / 4722366482869645213696"
  "float_lit 1 8 = 3022314549036573 / 302231454903657293676544"
  "float_lit 1 5 = 5902958103587057 / 590295810358705651712"
  by (simp_all add: float_lit_def fl_ev)

lemma encode_sampling_vals:
  "encode_sampling (float_lit 1 4) = Inr ''100U''"
  "encode_sampling (float_lit 16 5) = Inr ''160U''"
  "encode_sampling (float_lit 2 4) = Inr ''200U''"
  "encode_sampling (float_lit 3 4) = Inr ''300U''"
  "encode_sampling (float_lit 4 4) = Inr ''400U''"
  "encode_sampling (float_lit 5 4) = Inr ''500U''"
  "encode_sampling (float_lit 6 4) = Inr ''600U''"
  "encode_sampling (float_lit 8 4) = Inr ''800U''"
  "encode_sampling (float_lit 1 3) = Inr ''001M''"
  "encode_sampling (float_lit 16 4) = Inr ''001M''"
  "encode_sampling (float_lit 2 3) = Inr ''002M''"
  "encode_sampling (float_lit 3 3) = Inr ''003M''"
  "encode_sampling (float_lit 4 3) = Inr ''004M''"
  "encode_sampling (float_lit 5 3) = Inr ''005M''"
  "encode_sampling (float_lit 6 3) = Inr ''006M''"
  "encode_sampling (float_lit 8 3) = Inr ''008M''"
  "encode_sampling (float_lit 1 2) = Inr ''010M''"
  apply (simp_all add: encode_sampling_def int_of_product_def lit_vals)
  apply (simp_all add: overflows_def py_trunc_def fl_ev)
  apply (simp_all add: py_str_def rjust_def digits_of.simps digit_char_def replicate_small)
  done

lemma py_float_vals:
  "py_float ''100'' = Inr (Finite 100)"
  "py_float ''160'' = Inr (Finite 160)"
  "py_float ''200'' = Inr (Finite 200)"
  "py_float ''300'' = Inr (Finite 300)"
  "py_float ''400'' = Inr (Finite 400)"
  "py_float ''500'' = Inr (Finite 500)"
  "py_float ''600'' = Inr (Finite 600)"
  "py_float ''800'' = Inr (Finite 800)"
  "py_float ''001'' = Inr (Finite 1)"
  "py_float ''002'' = Inr (Finite 2)"
  "py_float ''003'' = Inr (Finite 3)"
  "py_float ''004'' = Inr (Finite 4)"
  "py_float ''005'' = Inr (Finite 5)"
  "py_float ''006'' = Inr (Finite 6)"
  "py_float ''008'' = Inr (Finite 8)"
  "py_float ''010'' = Inr (Finite 10)"
  apply (simp_all add: py_float_def strip_def is_space_def split_sign_def ci_match_def
      is_exp_mark_def py_mantissa_def py_exponent_def is_point_def py_digits_def is_digit_def
      digit_val_def pow10_def)
  apply (simp_all add: overflows_def fl_ev)
  done

lemma decode_sampling_vals:
  "decode_sampling ''100U'' = Inr (Finite (1844674407370955 / 18446744073709551616))"
  "decode_sampling ''160U'' = Inr (Finite (368934881474191 / 2305843009213693952))"
  "decode_sampling ''200U'' = Inr (Finite (1844674407370955 / 9223372036854775808))"
  "decode_sampling ''300U'' = Inr (Finite (5534023222112865 / 18446744073709551616))"
  "decode_sampling ''400U'' = Inr (Finite (1844674407370955 / 4611686018427387904))"
  "decode_sampling ''500U'' = Inr (Finite (1152921504606847 / 2305843009213693952))"
  "decode_sampling ''600U'' = Inr (Finite (5534023222112865 / 9223372036854775808))"
  "decode_sampling ''800U'' = Inr (Finite (1844674407370955 / 2305843009213693952))"
  "decode_sampling ''001M'' = Inr (Finite (1152921504606847 / 1152921504606846976))"
  "decode_sampling ''002M'' = Inr (Finite (1152921504606847 / 576460752303423488))"
  "decode_sampling ''003M'' = Inr (Finite (3458764513820541 / 1152921504606846976))"
  "decode_sampling ''004M'' = Inr (Finite (1152921504606847 / 288230376151711744))"
  "decode_sampling ''005M'' = Inr (Finite (5764607523034235 / 1152921504606846976))"
  "decode_sampling ''006M'' = Inr (Finite (3458764513820541 / 576460752303423488))"
  "decode_sampling ''008M'' = Inr (Finite (1152921504606847 / 144115188075855872))"
  "decode_sampling ''010M'' = Inr (Finite (5764607523034235 / 576460752303423488))"
  apply (simp_all add: decode_sampling_def py_float_vals scale_float_def lit_vals)
  apply (simp_all add: fl_ev)
  done

lemma scaled_sampling_vals:
  "scaled_sampling (float_lit 1 4) = Inr 1"
  "scaled_sampling (float_lit 16 5) = Inr 2"
  "scaled_sampling (float_lit 2 4) = Inr 2"
  "scaled_sampling (float_lit 3 4) = Inr 3"
  "scaled_sampling (float_lit 4 4) = Inr 4"
  "scaled_sampling (float_lit 5 4) = Inr 5"
  "scaled_sampling (float_lit 6 4) = Inr 6"
  "scaled_sampling (float_lit 8 4) = Inr 8"
  "scaled_sampling (float_lit 1 3) = Inr 10"
  "scaled_sampling (float_lit 16 4) = Inr 16"
  "scaled_sampling (float_lit 2 3) = Inr 20"
  "scaled_sampling (float_lit 3 3) = Inr 30"
  "scaled_sampling (float_lit 4 3) = Inr 40"
  "scaled_sampling (float_lit 5 3) = Inr 50"
  "scaled_sampling (float_lit 6 3) = Inr 60"
  "scaled_sampling (float_lit 8 3) = Inr 80"
  "scaled_sampling (float_lit 1 2) = Inr 100"
  apply (simp_all add: scaled_sampling_def lit_vals)
  apply (simp_all add: overflows_def py_round_def fl_ev)
  done

lemma get_tiletype_vals:
  "get_tiletype (float_lit 1 4) = Inr ''T1''"
  "get_tiletype (float_lit 16 5) = Inr ''T1''"
  "get_tiletype (float_lit 2 4) = Inr ''T1''"
  "get_tiletype (float_lit 3 4) = Inr ''T3''"
  "get_tiletype (float_lit 4 4) = Inr ''T3''"
  "get_tiletype (float_lit 5 4) = Inr ''T3''"
  "get_tiletype (float_lit 6 4) = Inr ''T6''"
  "get_tiletype (float_lit 8 4) = Inr ''T6''"
  "get_tiletype (float_lit 1 3) = Inr ''T6''"
  "get_tiletype (float_lit 16 4) = Inr ''T6''"
  "get_tiletype (float_lit 2 3) = Inr ''T18''"
  "get_tiletype (float_lit 3 3) = Inr ''T18''"
  "get_tiletype (float_lit 4 3) = Inr ''T18''"
  "get_tiletype (float_lit 5 3) = Inr ''T18''"
  "get_tiletype (float_lit 6 3) = Inr ''T18''"
  "get_tiletype (float_lit 8 3) = Inr ''T18''"
  "get_tiletype (float_lit 1 2) = Inr ''T18''"
  by (simp_all add: get_tiletype_def scaled_sampling_vals py_fmod_def floor_rat_numeral)

lemma get_tilesize_vals:
  "get_tilesize (float_lit 1 4) = Inr (1, 1)"
  "get_tilesize (float_lit 16 5) = Inr (1, 1)"
  "get_tilesize (float_lit 2 4) = Inr (1, 1)"
  "get_tilesize (float_lit 3 4) = Inr (3, 3)"
  "get_tilesize (float_lit 4 4) = Inr (3, 3)"
  "get_tilesize (float_lit 5 4) = Inr (3, 3)"
  "get_tilesize (float_lit 6 4) = Inr (6, 6)"
  "get_tilesize (float_lit 8 4) = Inr (6, 6)"
  "get_tilesize (float_lit 1 3) = Inr (6, 6)"
  "get_tilesize (float_lit 16 4) = Inr (6, 6)"
  "get_tilesize (float_lit 2 3) = Inr (18, 18)"
  "get_tilesize (float_lit 3 3) = Inr (18, 18)"
  "get_tilesize (float_lit 4 3) = Inr (18, 18)"
  "get_tilesize (float_lit 5 3) = Inr (18, 18)"
  "get_tilesize (float_lit 6 3) = Inr (18, 18)"
  "get_tilesize (float_lit 8 3) = Inr (18, 18)"
  "get_tilesize (float_lit 1 2) = Inr (18, 18)"
  by (simp_all add: get_tilesize_def get_tiletype_vals tilesize_of_def)

lemma py_int_error: "py_int s = Inl e \<Longrightarrow> e = ValueError"
  by (auto simp: py_int_def Let_def split: prod.splits option.splits)

lemma py_float_error: "py_float s = Inl e \<Longrightarrow> e = ValueError"
  by (auto simp: py_float_def Let_def split: prod.splits option.splits if_splits)

lemma decode_sampling_error: "decode_sampling s = Inl e \<Longrightarrow> e = ValueError"
  by (auto simp: decode_sampling_def split: if_splits option.splits sum.splits
      dest: py_float_error)

lemma decode_coord_error: "tf \<noteq> 0 \<Longrightarrow> decode_coord d sh tf = Inl e \<Longrightarrow> e = ValueError"
  by (auto simp: decode_coord_def Let_def split: sum.splits if_splits dest: py_int_error)

lemma decode_tilename_error:
  assumes "tile_ysize_m c \<noteq> 0" and "decode_tilename c t = Inl e"
  shows "e = ValueError"
  using assms
  by (auto simp: decode_tilename_def Let_def
      split: if_splits sum.splits pyfloat.splits
      dest: py_int_error decode_coord_error decode_sampling_error)

lemma decode_tilename_tilecode:
  assumes "decode_tilename c t = Inr r"
  shows "CHR ''T'' # split_last (CHR ''T'') t = tiletype c"
  using assms
  by (auto simp: decode_tilename_def Let_def
      split: if_splits sum.splits pyfloat.splits)

lemma decode_tilename_length:
  "length t \<notin> {10, 11, 17, 18} \<Longrightarrow> decode_tilename c t = Inl ValueError"
  by (simp add: decode_tilename_def)

text \<open>
  Claim C7. \<open>decode_tilename\<close> raises \<open>ValueError\<close> for every string whose length is
  not 10, 11, 17 or 18, and for every string whose size-class suffix (the text after
  the last \<open>T\<close>) differs from the configured tiletype; in particular for
  \<open>E018N018T18\<close> on a system whose class is not T18.
\<close>

theorem decode_tilename_rejects:
  "(length t \<notin> {10, 11, 17, 18} \<longrightarrow> decode_tilename c t = Inl ValueError) \<and>
   (tile_ysize_m c \<noteq> 0 \<and> ''T'' @ split_last (CHR ''T'') t \<noteq> tiletype c
      \<longrightarrow> decode_tilename c t = Inl ValueError) \<and>
   (tile_ysize_m c \<noteq> 0 \<and> tiletype c \<noteq> ''T18''
      \<longrightarrow> decode_tilename c ''E018N018T18'' = Inl ValueError)"
proof (intro conjI impI)
  assume "length t \<notin> {10, 11, 17, 18}"
  then show "decode_tilename c t = Inl ValueError" by (rule decode_tilename_length)
next
  assume a: "tile_ysize_m c \<noteq> 0 \<and> ''T'' @ split_last (CHR ''T'') t \<noteq> tiletype c"
  show "decode_tilename c t = Inl ValueError"
  proof (cases "decode_tilename c t")
    case (Inl e)
    with a show ?thesis using decode_tilename_error by blast
  next
    case (Inr r)
    with a show ?thesis using decode_tilename_tilecode by fastforce
  qed
next
  assume a: "tile_ysize_m c \<noteq> 0 \<and> tiletype c \<noteq> ''T18''"
  have s: "split_last (CHR ''T'') ''E018N018T18'' = ''18''"
    by (simp add: split_last_def)
  show "decode_tilename c ''E018N018T18'' = Inl ValueError"
  proof (cases "decode_tilename c ''E018N018T18''")
    case (Inl e)
    with a show ?thesis using decode_tilename_error by blast
  next
    case (Inr r)
    from decode_tilename_tilecode [OF Inr] a s show ?thesis by simp
  qed
qed

text \<open>
  Claim C8. With both \<open>target_sampling\<close> and \<open>target_tiletype\<close> left \<open>None\<close>,
  \<open>find_overlapping_tilenames\<close> does not raise \<open>ValueError\<close>: none of the three input
  checks binds \<open>sampling\<close>, and the call fails with \<open>UnboundLocalError\<close>, for every
  tiling system and every tile name.
\<close>

theorem find_overlapping_tilenames_unbound:
  "find_overlapping_tilenames data c t None None = Inl UnboundLocalError"
  by (simp add: find_overlapping_tilenames_def search_sampling_def)

lemma find_overlapping_tilenames_bad_tiletype:
  "tt \<notin> {''T1'', ''T3'', ''T6''} \<Longrightarrow>
   find_overlapping_tilenames data c t None (Some tt) = Inl ValueError"
  by (simp add: find_overlapping_tilenames_def search_sampling_def)

text \<open>
  Claim C9. \<open>create_tile\<close> succeeds only when exactly one input form is supplied, the
  name alone or both \<open>lon\<close> and \<open>lat\<close> without a name, and raises \<open>AttributeError\<close>
  for every other combination of arguments.
\<close>

theorem create_tile_input_forms:
  "(create_tile data c name lon lat = Inr tile \<longrightarrow>
      (name \<noteq> None \<and> lon = None \<and> lat = None) \<or> (name = None \<and> lon \<noteq> None \<and> lat \<noteq> None)) \<and>
   (\<not> ((name \<noteq> None \<and> lon = None \<and> lat = None) \<or> (name = None \<and> lon \<noteq> None \<and> lat \<noteq> None))
      \<longrightarrow> create_tile data c name lon lat = Inl AttributeError)"
  by (cases name; cases lon; cases lat) (simp_all add: create_tile_def)

lemma py_fmod_int:
  assumes "0 < s"
  shows "py_fmod (of_int k) (of_int s) = 0 \<longleftrightarrow> s dvd k"
proof -
  have "\<lfloor>(of_int k :: rat) / of_int s\<rfloor> = k div s"
    by (rule floor_divide_of_int_eq)
  then have "py_fmod (of_int k) (of_int s) = of_int (k - k div s * s)"
    by (simp add: py_fmod_def)
  also have "k - k div s * s = k mod s"
    by (simp add: minus_div_mult_eq_mod)
  finally show ?thesis
    by (simp add: dvd_eq_mod_eq_0)
qed

lemma get_tiletype_scaled:
  assumes "\<not> overflows (smp * 10 ^ 4)" and "s = round_half_even (fl (smp * 10 ^ 4))"
  shows "get_tiletype smp =
     (if 1 \<le> s \<and> s < 3 \<and> s dvd 10000 then Inr ''T1''
      else if 3 \<le> s \<and> s < 6 \<and> s dvd 30000 then Inr ''T3''
      else if 6 \<le> s \<and> s < 20 \<and> s dvd 60000 then Inr ''T6''
      else if 20 \<le> s \<and> s < 101 \<and> s dvd 180000 then Inr ''T18''
      else Inl ValueError)"
proof -
  have f: "0 < s \<Longrightarrow> (py_fmod (numeral k) (of_int s) = 0) = (s dvd numeral k)" for k
    using py_fmod_int [of s "numeral k"] by simp
  have "scaled_sampling smp = Inr s"
    using assms by (simp add: scaled_sampling_def py_round_def)
  then show ?thesis
    by (auto simp: get_tiletype_def f)
qed

lemma scaled_static_sampling:
  "map (\<lambda>smp. round_half_even (fl (smp * 10 ^ 4))) static_sampling =
     [1, 2, 2, 3, 4, 5, 6, 8, 10, 16, 20, 30, 40, 50, 60, 80, 100]"
  unfolding static_sampling_def
  apply (simp add: lit_vals)
  apply (simp add: fl_ev)
  done

lemma classes_static_sampling:
  "map get_tiletype static_sampling =
     [Inr ''T1'', Inr ''T1'', Inr ''T1'', Inr ''T3'', Inr ''T3'', Inr ''T3'', Inr ''T6'', Inr ''T6'', Inr ''T6'', Inr ''T6'', Inr ''T18'', Inr ''T18'', Inr ''T18'', Inr ''T18'', Inr ''T18'', Inr ''T18'', Inr ''T18'']"
  unfolding static_sampling_def by (simp add: get_tiletype_vals)

text \<open>
  Claim C4. With \<open>s\<close> the sampling scaled by \<open>1e4\<close> and rounded to an integer, that is
  \<open>s = int(round(sampling * 1e4))\<close> on a finite product, \<open>get_tiletype\<close> returns T1 when
  \<open>1 \<le> s < 3\<close> and \<open>s\<close> divides 10000, T3 when \<open>3 \<le> s < 6\<close> and \<open>s\<close> divides 30000, T6
  when \<open>6 \<le> s < 20\<close> and \<open>s\<close> divides 60000, T18 when \<open>20 \<le> s < 101\<close> and \<open>s\<close> divides
  180000, checked in that order, and raises \<open>ValueError\<close> otherwise. The supported
  samplings scale to 1, 2, 2, 3, 4, 5, 6, 8, 10, 16, 20, 30, 40, 50, 60, 80 and 100, and
  each of them maps to one class: three to T1, three to T3, four to T6 and seven to T18.
\<close>

theorem get_tiletype_classes:
  "(\<forall>smp s. \<not> overflows (smp * 10 ^ 4) \<and> s = round_half_even (fl (smp * 10 ^ 4)) \<longrightarrow>
      get_tiletype smp =
        (if 1 \<le> s \<and> s < 3 \<and> s dvd 10000 then Inr ''T1''
         else if 3 \<le> s \<and> s < 6 \<and> s dvd 30000 then Inr ''T3''
         else if 6 \<le> s \<and> s < 20 \<and> s dvd 60000 then Inr ''T6''
         else if 20 \<le> s \<and> s < 101 \<and> s dvd 180000 then Inr ''T18''
         else Inl ValueError)) \<and>
   map (\<lambda>smp. round_half_even (fl (smp * 10 ^ 4))) static_sampling =
     [1, 2, 2, 3, 4, 5, 6, 8, 10, 16, 20, 30, 40, 50, 60, 80, 100] \<and>
   map get_tiletype static_sampling =
     [Inr ''T1'', Inr ''T1'', Inr ''T1'', Inr ''T3'', Inr ''T3'', Inr ''T3'', Inr ''T6'', Inr ''T6'', Inr ''T6'', Inr ''T6'', Inr ''T18'', Inr ''T18'', Inr ''T18'', Inr ''T18'', Inr ''T18'', Inr ''T18'', Inr ''T18'']"
  using get_tiletype_scaled scaled_static_sampling classes_static_sampling by blast

theorem get_tiletype_classes_witness:
  "\<not> overflows (float_lit 6 4 * 10 ^ 4) \<and>
   round_half_even (fl (float_lit 6 4 * 10 ^ 4)) = 6 \<and>
   get_tiletype (float_lit 6 4) = Inr ''T6'' \<and>
   \<not> overflows (float_lit 7 4 * 10 ^ 4) \<and>
   round_half_even (fl (float_lit 7 4 * 10 ^ 4)) = 7 \<and>
   get_tiletype (float_lit 7 4) = Inl ValueError"
proof -
  have l: "float_lit 7 4 = 6456360425798343 / 9223372036854775808"
    by (simp add: float_lit_def fl_ev)
  have a: "\<not> overflows (float_lit 6 4 * 10 ^ 4)" "round_half_even (fl (float_lit 6 4 * 10 ^ 4)) = 6"
    by (simp_all add: lit_vals overflows_def) (simp_all add: fl_ev)
  have b: "\<not> overflows (float_lit 7 4 * 10 ^ 4)" "round_half_even (fl (float_lit 7 4 * 10 ^ 4)) = 7"
    by (simp_all add: l overflows_def) (simp_all add: fl_ev)
  from get_tiletype_classes [THEN conjunct1, rule_format, of "float_lit 6 4" 6]
    get_tiletype_classes [THEN conjunct1, rule_format, of "float_lit 7 4" 7] a b
  show ?thesis by simp
qed

lemma isclose_vals:
  "isclose (Finite (1844674407370955 / 18446744073709551616)) (float_lit 1 4)"
  "isclose (Finite (368934881474191 / 2305843009213693952)) (float_lit 16 5)"
  "isclose (Finite (1844674407370955 / 9223372036854775808)) (float_lit 2 4)"
  "isclose (Finite (5534023222112865 / 18446744073709551616)) (float_lit 3 4)"
  "isclose (Finite (1844674407370955 / 4611686018427387904)) (float_lit 4 4)"
  "isclose (Finite (1152921504606847 / 2305843009213693952)) (float_lit 5 4)"
  "isclose (Finite (5534023222112865 / 9223372036854775808)) (float_lit 6 4)"
  "isclose (Finite (1844674407370955 / 2305843009213693952)) (float_lit 8 4)"
  "isclose (Finite (1152921504606847 / 1152921504606846976)) (float_lit 1 3)"
  "\<not> isclose (Finite (1152921504606847 / 1152921504606846976)) (float_lit 16 4)"
  "isclose (Finite (1152921504606847 / 576460752303423488)) (float_lit 2 3)"
  "isclose (Finite (3458764513820541 / 1152921504606846976)) (float_lit 3 3)"
  "isclose (Finite (1152921504606847 / 288230376151711744)) (float_lit 4 3)"
  "isclose (Finite (5764607523034235 / 1152921504606846976)) (float_lit 5 3)"
  "isclose (Finite (3458764513820541 / 576460752303423488)) (float_lit 6 3)"
  "isclose (Finite (1152921504606847 / 144115188075855872)) (float_lit 8 3)"
  "isclose (Finite (5764607523034235 / 576460752303423488)) (float_lit 1 2)"
  apply (simp_all add: isclose_def lit_vals)
  apply (simp_all add: fl_ev)
  done

lemma recode_sampling_vals:
  "recode_sampling (float_lit 1 4) = Inr (Finite (1844674407370955 / 18446744073709551616))"
  "recode_sampling (float_lit 16 5) = Inr (Finite (368934881474191 / 2305843009213693952))"
  "recode_sampling (float_lit 2 4) = Inr (Finite (1844674407370955 / 9223372036854775808))"
  "recode_sampling (float_lit 3 4) = Inr (Finite (5534023222112865 / 18446744073709551616))"
  "recode_sampling (float_lit 4 4) = Inr (Finite (1844674407370955 / 4611686018427387904))"
  "recode_sampling (float_lit 5 4) = Inr (Finite (1152921504606847 / 2305843009213693952))"
  "recode_sampling (float_lit 6 4) = Inr (Finite (5534023222112865 / 9223372036854775808))"
  "recode_sampling (float_lit 8 4) = Inr (Finite (1844674407370955 / 2305843009213693952))"
  "recode_sampling (float_lit 1 3) = Inr (Finite (1152921504606847 / 1152921504606846976))"
  "recode_sampling (float_lit 16 4) = Inr (Finite (1152921504606847 / 1152921504606846976))"
  "recode_sampling (float_lit 2 3) = Inr (Finite (1152921504606847 / 576460752303423488))"
  "recode_sampling (float_lit 3 3) = Inr (Finite (3458764513820541 / 1152921504606846976))"
  "recode_sampling (float_lit 4 3) = Inr (Finite (1152921504606847 / 288230376151711744))"
  "recode_sampling (float_lit 5 3) = Inr (Finite (5764607523034235 / 1152921504606846976))"
  "recode_sampling (float_lit 6 3) = Inr (Finite (3458764513820541 / 576460752303423488))"
  "recode_sampling (float_lit 8 3) = Inr (Finite (1152921504606847 / 144115188075855872))"
  "recode_sampling (float_lit 1 2) = Inr (Finite (5764607523034235 / 576460752303423488))"
  by (simp_all add: recode_sampling_def encode_sampling_vals decode_sampling_vals)

lemma LatLonGrid_vals:
  assumes "data ''GL'' = Some cl"
  shows
  "LatLonGrid data (float_lit 1 4) =
     Inr \<lparr>grid_core = \<lparr>tag = ''LatLon'', sampling = float_lit 1 4, tiletype = ''T1'', tile_xsize_m = 1, tile_ysize_m = 1\<rparr>,
          subgrids = [(''GL'', \<lparr>tag = ''GL'', sampling = float_lit 1 4, tiletype = ''T1'', tile_xsize_m = 1, tile_ysize_m = 1\<rparr>)]\<rparr>"
  "LatLonGrid data (float_lit 16 5) =
     Inr \<lparr>grid_core = \<lparr>tag = ''LatLon'', sampling = float_lit 16 5, tiletype = ''T1'', tile_xsize_m = 1, tile_ysize_m = 1\<rparr>,
          subgrids = [(''GL'', \<lparr>tag = ''GL'', sampling = float_lit 16 5, tiletype = ''T1'', tile_xsize_m = 1, tile_ysize_m = 1\<rparr>)]\<rparr>"
  "LatLonGrid data (float_lit 2 4) =
     Inr \<lparr>grid_core = \<lparr>tag = ''LatLon'', sampling = float_lit 2 4, tiletype = ''T1'', tile_xsize_m = 1, tile_ysize_m = 1\<rparr>,
          subgrids = [(''GL'', \<lparr>tag = ''GL'', sampling = float_lit 2 4, tiletype = ''T1'', tile_xsize_m = 1, tile_ysize_m = 1\<rparr>)]\<rparr>"
  "LatLonGrid data (float_lit 3 4) =
     Inr \<lparr>grid_core = \<lparr>tag = ''LatLon'', sampling = float_lit 3 4, tiletype = ''T3'', tile_xsize_m = 3, tile_ysize_m = 3\<rparr>,
          subgrids = [(''GL'', \<lparr>tag = ''GL'', sampling = float_lit 3 4, tiletype = ''T3'', tile_xsize_m = 3, tile_ysize_m = 3\<rparr>)]\<rparr>"
  "LatLonGrid data (float_lit 4 4) =
     Inr \<lparr>grid_core = \<lparr>tag = ''LatLon'', sampling = float_lit 4 4, tiletype = ''T3'', tile_xsize_m = 3, tile_ysize_m = 3\<rparr>,
          subgrids = [(''GL'', \<lparr>tag = ''GL'', sampling = float_lit 4 4, tiletype = ''T3'', tile_xsize_m = 3, tile_ysize_m = 3\<rparr>)]\<rparr>"
  "LatLonGrid data (float_lit 5 4) =
     Inr \<lparr>grid_core = \<lparr>tag = ''LatLon'', sampling = float_lit 5 4, tiletype = ''T3'', tile_xsize_m = 3, tile_ysize_m = 3\<rparr>,
          subgrids = [(''GL'', \<lparr>tag = ''GL'', sampling = float_lit 5 4, tiletype = ''T3'', tile_xsize_m = 3, tile_ysize_m = 3\<rparr>)]\<rparr>"
  "LatLonGrid data (float_lit 6 4) =
     Inr \<lparr>grid_core = \<lparr>tag = ''LatLon'', sampling = float_lit 6 4, tiletype = ''T6'', tile_xsize_m = 6, tile_ysize_m = 6\<rparr>,
          subgrids = [(''GL'', \<lparr>tag = ''GL'', sampling = float_lit 6 4, tiletype = ''T6'', tile_xsize_m = 6, tile_ysize_m = 6\<rparr>)]\<rparr>"
  "LatLonGrid data (float_lit 8 4) =
     Inr \<lparr>grid_core = \<lparr>tag = ''LatLon'', sampling = float_lit 8 4, tiletype = ''T6'', tile_xsize_m = 6, tile_ysize_m = 6\<rparr>,
          subgrids = [(''GL'', \<lparr>tag = ''GL'', sampling = float_lit 8 4, tiletype = ''T6'', tile_xsize_m = 6, tile_ysize_m = 6\<rparr>)]\<rparr>"
  "LatLonGrid data (float_lit 1 3) =
     Inr \<lparr>grid_core = \<lparr>tag = ''LatLon'', sampling = float_lit 1 3, tiletype = ''T6'', tile_xsize_m = 6, tile_ysize_m = 6\<rparr>,
          subgrids = [(''GL'', \<lparr>tag = ''GL'', sampling = float_lit 1 3, tiletype = ''T6'', tile_xsize_m = 6, tile_ysize_m = 6\<rparr>)]\<rparr>"
  "LatLonGrid data (float_lit 16 4) =
     Inr \<lparr>grid_core = \<lparr>tag = ''LatLon'', sampling = float_lit 16 4, tiletype = ''T6'', tile_xsize_m = 6, tile_ysize_m = 6\<rparr>,
          subgrids = [(''GL'', \<lparr>tag = ''GL'', sampling = float_lit 16 4, tiletype = ''T6'', tile_xsize_m = 6, tile_ysize_m = 6\<rparr>)]\<rparr>"
  "LatLonGrid data (float_lit 2 3) =
     Inr \<lparr>grid_core = \<lparr>tag = ''LatLon'', sampling = float_lit 2 3, tiletype = ''T18'', tile_xsize_m = 18, tile_ysize_m = 18\<rparr>,
          subgrids = [(''GL'', \<lparr>tag = ''GL'', sampling = float_lit 2 3, tiletype = ''T18'', tile_xsize_m = 18, tile_ysize_m = 18\<rparr>)]\<rparr>"
  "LatLonGrid data (float_lit 3 3) =
     Inr \<lparr>grid_core = \<lparr>tag = ''LatLon'', sampling = float_lit 3 3, tiletype = ''T18'', tile_xsize_m = 18, tile_ysize_m = 18\<rparr>,
          subgrids = [(''GL'', \<lparr>tag = ''GL'', sampling = float_lit 3 3, tiletype = ''T18'', tile_xsize_m = 18, tile_ysize_m = 18\<rparr>)]\<rparr>"
  "LatLonGrid data (float_lit 4 3) =
     Inr \<lparr>grid_core = \<lparr>tag = ''LatLon'', sampling = float_lit 4 3, tiletype = ''T18'', tile_xsize_m = 18, tile_ysize_m = 18\<rparr>,
          subgrids = [(''GL'', \<lparr>tag = ''GL'', sampling = float_lit 4 3, tiletype = ''T18'', tile_xsize_m = 18, tile_ysize_m = 18\<rparr>)]\<rparr>"
  "LatLonGrid data (float_lit 5 3) =
     Inr \<lparr>grid_core = \<lparr>tag = ''LatLon'', sampling = float_lit 5 3, tiletype = ''T18'', tile_xsize_m = 18, tile_ysize_m = 18\<rparr>,
          subgrids = [(''GL'', \<lparr>tag = ''GL'', sampling = float_lit 5 3, tiletype = ''T18'', tile_xsize_m = 18, tile_ysize_m = 18\<rparr>)]\<rparr>"
  "LatLonGrid data (float_lit 6 3) =
     Inr \<lparr>grid_core = \<lparr>tag = ''LatLon'', sampling = float_lit 6 3, tiletype = ''T18'', tile_xsize_m = 18, tile_ysize_m = 18\<rparr>,
          subgrids = [(''GL'', \<lparr>tag = ''GL'', sampling = float_lit 6 3, tiletype = ''T18'', tile_xsize_m = 18, tile_ysize_m = 18\<rparr>)]\<rparr>"
  "LatLonGrid data (float_lit 8 3) =
     Inr \<lparr>grid_core = \<lparr>tag = ''LatLon'', sampling = float_lit 8 3, tiletype = ''T18'', tile_xsize_m = 18, tile_ysize_m = 18\<rparr>,
          subgrids = [(''GL'', \<lparr>tag = ''GL'', sampling = float_lit 8 3, tiletype = ''T18'', tile_xsize_m = 18, tile_ysize_m = 18\<rparr>)]\<rparr>"
  "LatLonGrid data (float_lit 1 2) =
     Inr \<lparr>grid_core = \<lparr>tag = ''LatLon'', sampling = float_lit 1 2, tiletype = ''T18'', tile_xsize_m = 18, tile_ysize_m = 18\<rparr>,
          subgrids = [(''GL'', \<lparr>tag = ''GL'', sampling = float_lit 1 2, tiletype = ''T18'', tile_xsize_m = 18, tile_ysize_m = 18\<rparr>)]\<rparr>"
  using assms
  by (simp_all add: LatLonGrid_def static_sampling_def get_tiletype_vals get_tilesize_vals
      define_subgrids_def static_subgrid_ids_def LatLonSubgrid_def encode_sampling_vals)

lemma grid_tilesys_vals:
  assumes "data ''GL'' = Some cl"
  shows
  "grid_tilesys data (float_lit 1 4) =
     Inr \<lparr>tag = ''GL'', sampling = float_lit 1 4, tiletype = ''T1'', tile_xsize_m = 1, tile_ysize_m = 1\<rparr>"
  "grid_tilesys data (float_lit 16 5) =
     Inr \<lparr>tag = ''GL'', sampling = float_lit 16 5, tiletype = ''T1'', tile_xsize_m = 1, tile_ysize_m = 1\<rparr>"
  "grid_tilesys data (float_lit 2 4) =
     Inr \<lparr>tag = ''GL'', sampling = float_lit 2 4, tiletype = ''T1'', tile_xsize_m = 1, tile_ysize_m = 1\<rparr>"
  "grid_tilesys data (float_lit 3 4) =
     Inr \<lparr>tag = ''GL'', sampling = float_lit 3 4, tiletype = ''T3'', tile_xsize_m = 3, tile_ysize_m = 3\<rparr>"
  "grid_tilesys data (float_lit 4 4) =
     Inr \<lparr>tag = ''GL'', sampling = float_lit 4 4, tiletype = ''T3'', tile_xsize_m = 3, tile_ysize_m = 3\<rparr>"
  "grid_tilesys data (float_lit 5 4) =
     Inr \<lparr>tag = ''GL'', sampling = float_lit 5 4, tiletype = ''T3'', tile_xsize_m = 3, tile_ysize_m = 3\<rparr>"
  "grid_tilesys data (float_lit 6 4) =
     Inr \<lparr>tag = ''GL'', sampling = float_lit 6 4, tiletype = ''T6'', tile_xsize_m = 6, tile_ysize_m = 6\<rparr>"
  "grid_tilesys data (float_lit 8 4) =
     Inr \<lparr>tag = ''GL'', sampling = float_lit 8 4, tiletype = ''T6'', tile_xsize_m = 6, tile_ysize_m = 6\<rparr>"
  "grid_tilesys data (float_lit 1 3) =
     Inr \<lparr>tag = ''GL'', sampling = float_lit 1 3, tiletype = ''T6'', tile_xsize_m = 6, tile_ysize_m = 6\<rparr>"
  "grid_tilesys data (float_lit 16 4) =
     Inr \<lparr>tag = ''GL'', sampling = float_lit 16 4, tiletype = ''T6'', tile_xsize_m = 6, tile_ysize_m = 6\<rparr>"
  "grid_tilesys data (float_lit 2 3) =
     Inr \<lparr>tag = ''GL'', sampling = float_lit 2 3, tiletype = ''T18'', tile_xsize_m = 18, tile_ysize_m = 18\<rparr>"
  "grid_tilesys data (float_lit 3 3) =
     Inr \<lparr>tag = ''GL'', sampling = float_lit 3 3, tiletype = ''T18'', tile_xsize_m = 18, tile_ysize_m = 18\<rparr>"
  "grid_tilesys data (float_lit 4 3) =
     Inr \<lparr>tag = ''GL'', sampling = float_lit 4 3, tiletype = ''T18'', tile_xsize_m = 18, tile_ysize_m = 18\<rparr>"
  "grid_tilesys data (float_lit 5 3) =
     Inr \<lparr>tag = ''GL'', sampling = float_lit 5 3, tiletype = ''T18'', tile_xsize_m = 18, tile_ysize_m = 18\<rparr>"
  "grid_tilesys data (float_lit 6 3) =
     Inr \<lparr>tag = ''GL'', sampling = float_lit 6 3, tiletype = ''T18'', tile_xsize_m = 18, tile_ysize_m = 18\<rparr>"
  "grid_tilesys data (float_lit 8 3) =
     Inr \<lparr>tag = ''GL'', sampling = float_lit 8 3, tiletype = ''T18'', tile_xsize_m = 18, tile_ysize_m = 18\<rparr>"
  "grid_tilesys data (float_lit 1 2) =
     Inr \<lparr>tag = ''GL'', sampling = float_lit 1 2, tiletype = ''T18'', tile_xsize_m = 18, tile_ysize_m = 18\<rparr>"
  using assms by (simp_all add: grid_tilesys_def LatLonGrid_vals tilesys_def)

lemma sample_data_GL: "\<exists>cl. sample_data ''GL'' = Some cl"
  by (simp add: sample_data_def)

lemmas decode_ev = decode_tilename_def decode_coord_def slice_def split_last_def py_int_def
  strip_def is_space_def split_sign_def py_digits_def is_digit_def digit_val_def Let_def

lemma decode_short_T6:
  "decode_tilename \<lparr>tag = ''GL'', sampling = float_lit 6 4, tiletype = ''T6'', tile_xsize_m = 6, tile_ysize_m = 6\<rparr>
     ''E012N042T6'' = Inr (''GL'', float_lit 6 4, 6, - 168, - 48, ''T6'')"
  by (simp add: decode_ev)

lemma decode_long_T6:
  "decode_tilename \<lparr>tag = ''GL'', sampling = float_lit 6 4, tiletype = ''T6'', tile_xsize_m = 6, tile_ysize_m = 6\<rparr>
     ''GL600U_E180N120T6'' = Inr (''GL'', 5534023222112865 / 9223372036854775808, 6, 0, 30, ''T6'')"
  by (simp add: decode_ev decode_sampling_vals isclose_vals)

text \<open>
  Claim C1, at a failing input. On the tiling system of the grid with sampling
  \<open>0.0006\<close> (class T6), the family tiles of \<open>E012N042T6\<close> for the target sampling
  \<open>0.002\<close> (class T18) are the empty list and not the one enclosing T18 tile: the
  tilecodes are compared as strings, and \<open>''T18'' >= ''T6''\<close> is false.
\<close>

theorem family_tiles_coarser_T18_empty:
  "grid_tilesys sample_data (float_lit 6 4) = Inr \<lparr>tag = ''GL'', sampling = float_lit 6 4, tiletype = ''T6'', tile_xsize_m = 6, tile_ysize_m = 6\<rparr> \<and>
   find_overlapping_tilenames sample_data \<lparr>tag = ''GL'', sampling = float_lit 6 4, tiletype = ''T6'', tile_xsize_m = 6, tile_ysize_m = 6\<rparr>
     ''E012N042T6'' (Some (float_lit 2 3)) None = Inr []"
proof -
  obtain cl where cl: "sample_data ''GL'' = Some cl"
    using sample_data_GL by blast
  show ?thesis
    using cl
    by (simp add: grid_tilesys_vals find_overlapping_tilenames_def search_sampling_def
        LatLonGrid_vals decode_short_T6)
qed

theorem decode_tilename_rejects_witness:
  "length ''abcT9'' \<notin> {10 :: nat, 11, 17, 18} \<and>
   tile_ysize_m \<lparr>tag = ''GL'', sampling = float_lit 1 4, tiletype = ''T1'', tile_xsize_m = 1, tile_ysize_m = 1\<rparr> \<noteq> 0 \<and>
   ''T'' @ split_last (CHR ''T'') ''abcT9'' \<noteq> tiletype \<lparr>tag = ''GL'', sampling = float_lit 1 4, tiletype = ''T1'', tile_xsize_m = 1, tile_ysize_m = 1\<rparr> \<and>
   tiletype \<lparr>tag = ''GL'', sampling = float_lit 1 4, tiletype = ''T1'', tile_xsize_m = 1, tile_ysize_m = 1\<rparr> \<noteq> ''T18'' \<and>
   decode_tilename \<lparr>tag = ''GL'', sampling = float_lit 1 4, tiletype = ''T1'', tile_xsize_m = 1, tile_ysize_m = 1\<rparr> ''abcT9'' = Inl ValueError \<and>
   decode_tilename \<lparr>tag = ''GL'', sampling = float_lit 1 4, tiletype = ''T1'', tile_xsize_m = 1, tile_ysize_m = 1\<rparr> ''E018N018T18'' = Inl ValueError"
  using decode_tilename_rejects [of "''abcT9''" "\<lparr>tag = ''GL'', sampling = float_lit 1 4, tiletype = ''T1'', tile_xsize_m = 1, tile_ysize_m = 1\<rparr>"]
  by (simp add: split_last_def)

lemmas format_ev = format_03d_def rjust_def digits_of.simps digit_char_def replicate_small
  py_trunc_def

lemma encode_long_T6:
  "encode_tilename' \<lparr>tag = ''GL'', sampling = float_lit 6 4, tiletype = ''T6'', tile_xsize_m = 6, tile_ysize_m = 6\<rparr> 0 30 False = Inr ''GL600U_E180N120T6''"
  by (simp add: encode_tilename'_def encode_tilename_def encode_sampling_vals format_ev)

lemma covers_land_long_T6:
  "check_tile_covers_land sample_data \<lparr>tag = ''GL'', sampling = float_lit 6 4, tiletype = ''T6'', tile_xsize_m = 6, tile_ysize_m = 6\<rparr> ''GL600U_E180N120T6'' = Inr True"
  by (simp add: check_tile_covers_land_def list_tiles_covering_land_def sample_data_def
      check_tilename_def tilename2short_def decode_long_T6)

lemma decode_short_T6_land:
  "decode_tilename \<lparr>tag = ''GL'', sampling = float_lit 6 4, tiletype = ''T6'', tile_xsize_m = 6, tile_ysize_m = 6\<rparr>
     ''E180N120T6'' = Inr (''GL'', float_lit 6 4, 6, 0, 30, ''T6'')"
  by (simp add: decode_ev)

theorem create_tile_input_forms_witness:
  "create_tile sample_data \<lparr>tag = ''GL'', sampling = float_lit 6 4, tiletype = ''T6'', tile_xsize_m = 6, tile_ysize_m = 6\<rparr> (Some ''E180N120T6'') None None =
     Inr \<lparr>tile_core = \<lparr>tag = ''GL'', sampling = float_lit 6 4, tiletype = ''T6'', tile_xsize_m = 6, tile_ysize_m = 6\<rparr>, tile_name = ''GL600U_E180N120T6'', tile_ll_lon = 0,
          tile_ll_lat = 30, covers_land = True\<rparr> \<and>
   create_tile sample_data \<lparr>tag = ''GL'', sampling = float_lit 6 4, tiletype = ''T6'', tile_xsize_m = 6, tile_ysize_m = 6\<rparr> (Some ''E180N120T6'') (Some 0) None = Inl AttributeError"
  using create_tile_input_forms [of sample_data "\<lparr>tag = ''GL'', sampling = float_lit 6 4, tiletype = ''T6'', tile_xsize_m = 6, tile_ysize_m = 6\<rparr>" "Some ''E180N120T6''" "Some 0" None]
  by (simp add: create_tile_def tilename2lowerleft_def decode_short_T6_land encode_long_T6
      covers_land_long_T6)

text \<open>
  Claim C5, as stated, fails. The short-form name \<open>E180N120T6\<close> decodes on the T6 tiling
  system and is a member of the T6 land tiles, but \<open>check_tile_covers_land\<close> returns no
  boolean for it: \<open>tilename2short\<close> binds its result only for names of 17 characters.
\<close>

theorem covers_land_short_name_counterexample:
  "decode_tilename \<lparr>tag = ''GL'', sampling = float_lit 6 4, tiletype = ''T6'', tile_xsize_m = 6, tile_ysize_m = 6\<rparr> ''E180N120T6'' = Inr (''GL'', float_lit 6 4, 6, 0, 30, ''T6'') \<and>
   list_tiles_covering_land sample_data \<lparr>tag = ''GL'', sampling = float_lit 6 4, tiletype = ''T6'', tile_xsize_m = 6, tile_ysize_m = 6\<rparr> =
     Inr [''E180N120T6'', ''E186N120T6'', ''E180N126T6'', ''E186N126T6''] \<and>
   check_tile_covers_land sample_data \<lparr>tag = ''GL'', sampling = float_lit 6 4, tiletype = ''T6'', tile_xsize_m = 6, tile_ysize_m = 6\<rparr> ''E180N120T6'' = Inl UnboundLocalError"
  by (simp add: decode_short_T6_land check_tile_covers_land_def list_tiles_covering_land_def
      sample_data_def check_tilename_def tilename2short_def)

text \<open>
  Claim C5, amended. For every long-form tile name \<open>t\<close> of 17 characters that decodes
  on the tiling system, and a dataset that holds the land tiles of the configured class,
  \<open>check_tile_covers_land t\<close> returns a boolean, true exactly when the short form
  \<open>t[7:]\<close> is a member of that set.
\<close>

theorem covers_land_long_name:
  assumes "length t = 17"
    and "decode_tilename c t = Inr r"
    and "list_tiles_covering_land data c = Inr land_tiles"
  shows "check_tile_covers_land data c t = Inr (drop 7 t \<in> set land_tiles)"
  using assms by (simp add: check_tile_covers_land_def check_tilename_def tilename2short_def)

theorem covers_land_long_name_witness:
  "length ''GL600U_E180N120T6'' = 17 \<and>
   decode_tilename \<lparr>tag = ''GL'', sampling = float_lit 6 4, tiletype = ''T6'', tile_xsize_m = 6, tile_ysize_m = 6\<rparr> ''GL600U_E180N120T6'' = Inr (''GL'', 5534023222112865 / 9223372036854775808, 6, 0, 30, ''T6'') \<and>
   list_tiles_covering_land sample_data \<lparr>tag = ''GL'', sampling = float_lit 6 4, tiletype = ''T6'', tile_xsize_m = 6, tile_ysize_m = 6\<rparr> =
     Inr [''E180N120T6'', ''E186N120T6'', ''E180N126T6'', ''E186N126T6''] \<and>
   check_tile_covers_land sample_data \<lparr>tag = ''GL'', sampling = float_lit 6 4, tiletype = ''T6'', tile_xsize_m = 6, tile_ysize_m = 6\<rparr> ''GL600U_E180N120T6'' = Inr True"
proof -
  have l: "length ''GL600U_E180N120T6'' = 17" by simp
  have d: "decode_tilename \<lparr>tag = ''GL'', sampling = float_lit 6 4, tiletype = ''T6'', tile_xsize_m = 6, tile_ysize_m = 6\<rparr> ''GL600U_E180N120T6'' = Inr (''GL'', 5534023222112865 / 9223372036854775808, 6, 0, 30, ''T6'')"
    by (rule decode_long_T6)
  have t: "list_tiles_covering_land sample_data \<lparr>tag = ''GL'', sampling = float_lit 6 4, tiletype = ''T6'', tile_xsize_m = 6, tile_ysize_m = 6\<rparr> =
     Inr [''E180N120T6'', ''E186N120T6'', ''E180N126T6'', ''E186N126T6'']"
    by (simp add: list_tiles_covering_land_def sample_data_def)
  from covers_land_long_name [OF l d t] l d t show ?thesis by simp
qed

text \<open>
  Claim C2, at a failing input. The region of interest is the rectangle with longitudes
  \<open>-6.5 .. -6.25\<close> and latitudes \<open>10.25 .. 10.5\<close>, which lies inside the T6 tile with
  lower-left corner \<open>(-12, 6)\<close>. \<open>int\<close> truncates the minimum corner \<open>-6.5\<close> toward zero,
  so the candidate lattice starts at longitude \<open>-6\<close>; the tile that holds the region is not
  a candidate and the search returns the empty list.
\<close>

theorem search_misses_negative_corner:
  "candidate_lattice \<lparr>tag = ''GL'', sampling = float_lit 6 4, tiletype = ''T6'', tile_xsize_m = 6, tile_ysize_m = 6\<rparr> (- (13 / 2), - (25 / 4), 41 / 4, 21 / 2) = [(- 6, 6), (- 6, 12), (0, 6), (0, 12)] \<and>
   (tile_floor 6 (- (13 / 2)), tile_floor 6 (41 / 4)) = (- 12, 6) \<and>
   meets_extent (rectangle (- (13 / 2), - (25 / 4), 41 / 4, 21 / 2)) (- 12, 6, - 12 + 6, 6 + 6) \<and>
   search_tiles_in_geometry sample_data \<lparr>tag = ''GL'', sampling = float_lit 6 4, tiletype = ''T6'', tile_xsize_m = 6, tile_ysize_m = 6\<rparr> (rectangle (- (13 / 2), - (25 / 4), 41 / 4, 21 / 2)) False = Inr []"
proof -
  have lat: "candidate_lattice \<lparr>tag = ''GL'', sampling = float_lit 6 4, tiletype = ''T6'', tile_xsize_m = 6, tile_ysize_m = 6\<rparr> (- (13 / 2), - (25 / 4), 41 / 4, 21 / 2)
      = [(- 6, 6), (- 6, 12), (0, 6), (0, 12)]"
    by (simp add: candidate_lattice_def py_trunc_def arange_def ceiling_rat_numeral
        floor_rat_numeral ceiling_neg_rat_numeral numeral_2_eq_2)
  have fl: "(tile_floor 6 (- (13 / 2)), tile_floor 6 (41 / 4)) = (- 12, 6)"
    by (simp add: tile_floor_def floor_rat_numeral floor_neg_rat_numeral)
  have m: "meets_extent (rectangle (- (13 / 2), - (25 / 4), 41 / 4, 21 / 2)) (- 12, 6, - 12 + 6, 6 + 6)"
    by (simp add: rectangle_def)
  have s: "search_tiles_in_geometry sample_data \<lparr>tag = ''GL'', sampling = float_lit 6 4, tiletype = ''T6'', tile_xsize_m = 6, tile_ysize_m = 6\<rparr>
      (rectangle (- (13 / 2), - (25 / 4), 41 / 4, 21 / 2)) False = Inr []"
    unfolding search_tiles_in_geometry_def
    by (simp add: lat rectangle_def)
  from lat fl m s show ?thesis by blast
qed

text \<open>
  Claim \<lparr>tag = ''GL'', sampling = float_lit 6 4, tiletype = ''T6'', tile_xsize_m = 6, tile_ysize_m = 6\<rparr>, as stated, fails. The supported sampling \<open>0.0001\<close> is encoded as \<open>100U\<close>,
  and \<open>100.0 * 1e-6\<close> is the float \<open>9.999999999999999e-05\<close>, not the float \<open>0.0001\<close>.
\<close>

theorem sampling_roundtrip_counterexample:
  "float_lit 1 4 \<in> set static_sampling \<and>
   encode_sampling (float_lit 1 4) = Inr ''100U'' \<and>
   decode_sampling ''100U'' = Inr (Finite (1844674407370955 / 18446744073709551616)) \<and>
   1844674407370955 / 18446744073709551616 \<noteq> float_lit 1 4"
  by (simp add: static_sampling_def encode_sampling_vals decode_sampling_vals)
    (simp add: lit_vals)

lemma sampling_roundtrip_cases:
  "\<forall>s \<in> set static_sampling. s \<noteq> float_lit 16 4 \<longrightarrow>
     (case recode_sampling s of
        Inr (Finite d) \<Rightarrow>
          isclose (Finite d) s \<and>
          (s \<in> {float_lit 3 4, float_lit 5 4, float_lit 6 4, float_lit 1 3, float_lit 2 3, float_lit 3 3, float_lit 4 3, float_lit 5 3, float_lit 6 3, float_lit 8 3, float_lit 1 2} \<longrightarrow> d = s)
      | _ \<Rightarrow> False)"
  unfolding static_sampling_def
  by (simp add: recode_sampling_vals isclose_vals) (simp add: lit_vals)

text \<open>
  Claim \<lparr>tag = ''GL'', sampling = float_lit 6 4, tiletype = ''T6'', tile_xsize_m = 6, tile_ysize_m = 6\<rparr>, amended. For every supported sampling other than \<open>0.0016\<close>,
  \<open>decode_sampling(encode_sampling(s))\<close> is a float that \<open>numpy.isclose\<close> accepts as \<open>s\<close>,
  the comparison \<open>decode_tilename\<close> makes; it is exactly \<open>s\<close> for \<open>s\<close> in \<open>0.0003\<close>,
  \<open>0.0005\<close>, \<open>0.0006\<close>, \<open>0.001\<close>, \<open>0.002\<close>, \<open>0.003\<close>, \<open>0.004\<close>, \<open>0.005\<close>, \<open>0.006\<close>,
  \<open>0.008\<close> and \<open>0.01\<close>.
\<close>

theorem sampling_roundtrip_close:
  "\<forall>s \<in> set static_sampling. s \<noteq> float_lit 16 4 \<longrightarrow>
     (\<exists>d. recode_sampling s = Inr (Finite d) \<and> isclose (Finite d) s \<and>
          (s \<in> {float_lit 3 4, float_lit 5 4, float_lit 6 4, float_lit 1 3, float_lit 2 3, float_lit 3 3, float_lit 4 3, float_lit 5 3, float_lit 6 3, float_lit 8 3, float_lit 1 2} \<longrightarrow> d = s))"
proof (intro ballI impI)
  fix s assume "s \<in> set static_sampling" and "s \<noteq> float_lit 16 4"
  with sampling_roundtrip_cases
  have "case recode_sampling s of
        Inr (Finite d) \<Rightarrow>
          isclose (Finite d) s \<and>
          (s \<in> {float_lit 3 4, float_lit 5 4, float_lit 6 4, float_lit 1 3, float_lit 2 3, float_lit 3 3, float_lit 4 3, float_lit 5 3, float_lit 6 3, float_lit 8 3, float_lit 1 2} \<longrightarrow> d = s)
      | _ \<Rightarrow> False"
    by blast
  then show "\<exists>d. recode_sampling s = Inr (Finite d) \<and> isclose (Finite d) s \<and>
          (s \<in> {float_lit 3 4, float_lit 5 4, float_lit 6 4, float_lit 1 3, float_lit 2 3, float_lit 3 3, float_lit 4 3, float_lit 5 3, float_lit 6 3, float_lit 8 3, float_lit 1 2} \<longrightarrow> d = s)"
    by (auto split: sum.splits pyfloat.splits)
qed

theorem sampling_roundtrip_close_witness:
  "float_lit 1 4 \<in> set static_sampling \<and> float_lit 1 4 \<noteq> float_lit 16 4 \<and>
   float_lit 6 4 \<in> set static_sampling \<and> float_lit 6 4 \<noteq> float_lit 16 4 \<and>
   recode_sampling (float_lit 1 4) = Inr (Finite (1844674407370955 / 18446744073709551616)) \<and>
   isclose (Finite (1844674407370955 / 18446744073709551616)) (float_lit 1 4) \<and>
   recode_sampling (float_lit 6 4) = Inr (Finite (float_lit 6 4))"
  using sampling_roundtrip_close
  by (simp add: static_sampling_def recode_sampling_vals isclose_vals) (simp add: lit_vals)

lemma pow2_pos: "0 < pow2 e"
  by (simp add: pow2_def)

lemma pow2_powi: "pow2 e = power_int 2 e"
  by (simp add: pow2_def power_int_def inverse_eq_divide power_one_over)

lemma pow2_nat: "pow2 (int k) = 2 ^ k"
  by (simp add: pow2_def)

lemma pow2_nonpos: "e \<le> 0 \<Longrightarrow> pow2 e = 1 / 2 ^ nat (- e)"
  by (cases "e = 0") (simp_all add: pow2_def)

lemma pow2_less_imp: "pow2 a < pow2 b \<Longrightarrow> a < b"
proof (rule ccontr)
  assume l: "pow2 a < pow2 b" and "\<not> a < b"
  then have "b \<le> a" by simp
  then have "power_int (2 :: rat) b \<le> power_int 2 a"
    by (rule power_int_increasing) simp
  with l show False by (simp add: pow2_powi)
qed

lemma rhe_of_int: "round_half_even (of_int m) = m"
  by (simp add: round_half_even_def)

lemma rhe_ge_floor: "\<lfloor>z\<rfloor> \<le> round_half_even z"
  by (simp add: round_half_even_def Let_def)

lemma rhe_le_ceiling: "round_half_even z \<le> \<lceil>z\<rceil>"
  by (auto simp: round_half_even_def Let_def ceiling_altdef)

lemma rhe_le_int: "z \<le> of_int N \<Longrightarrow> round_half_even z \<le> N"
  using rhe_le_ceiling [of z] by (simp add: ceiling_le_iff [symmetric])

lemma rhe_ge_int: "of_int N \<le> z \<Longrightarrow> N \<le> round_half_even z"
  using rhe_ge_floor [of z] by (simp add: le_floor_iff [symmetric])

lemma rhe_err: "\<bar>of_int (round_half_even z) - z\<bar> \<le> 1 / 2"
proof -
  have "of_int \<lfloor>z\<rfloor> \<le> z" "z < of_int \<lfloor>z\<rfloor> + 1"
    by linarith+
  then show ?thesis
    by (auto simp: round_half_even_def Let_def abs_le_iff)
qed

lemma ilog2_lower:
  assumes "x \<noteq> 0"
  shows "pow2 (ilog2 x) \<le> \<bar>x\<bar>"
proof (cases "1 \<le> \<bar>x\<bar>")
  case True
  define n where "n = nat \<lfloor>\<bar>x\<bar>\<rfloor>"
  have f1: "1 \<le> \<lfloor>\<bar>x\<bar>\<rfloor>"
    using True by (simp add: le_floor_iff)
  then have n: "0 < n" by (simp add: n_def)
  define k where "k = floorlog 2 n"
  have k: "0 < k" using n by (simp add: k_def floorlog_def)
  have b: "2 ^ (k - 1) \<le> n"
    using floorlog_bounds [of n 2] n by (simp add: k_def)
  have "ilog2 x = int (k - 1)"
    using True k by (simp add: ilog2_def n_def k_def of_nat_diff)
  then have "pow2 (ilog2 x) = 2 ^ (k - 1)"
    by (simp add: pow2_nat)
  also have "(2 :: rat) ^ (k - 1) \<le> of_nat n"
  proof -
    have "(of_nat (2 ^ (k - 1)) :: rat) \<le> of_nat n"
      using b by (simp only: of_nat_le_iff)
    then show ?thesis by simp
  qed
  also have "(of_nat n :: rat) = of_int \<lfloor>\<bar>x\<bar>\<rfloor>"
    using f1 by (simp add: n_def)
  also have "\<dots> \<le> \<bar>x\<bar>" by simp
  finally show ?thesis .
next
  case False
  define y where "y = 1 / \<bar>x\<bar>"
  have xp: "0 < \<bar>x\<bar>" using assms by simp
  have y1: "1 < y"
    using False xp by (simp add: y_def field_simps)
  have c2: "2 \<le> \<lceil>y\<rceil>"
    using y1 by (simp add: le_ceiling_iff) 
  define m where "m = nat (\<lceil>y\<rceil> - 1)"
  have m: "0 < m" using c2 by (simp add: m_def)
  define k where "k = floorlog 2 m"
  have k: "0 < k" using m by (simp add: k_def floorlog_def)
  have b: "m < 2 ^ k"
    using floorlog_bounds [of m 2] m by (simp add: k_def)
  then have "int m + 1 \<le> 2 ^ k"
    by (metis add.commute of_nat_Suc of_nat_le_iff of_nat_numeral of_nat_power Suc_leI)
  then have "\<lceil>y\<rceil> \<le> 2 ^ k"
    using c2 by (simp add: m_def)
  then have yk: "y \<le> 2 ^ k"
    by (simp add: ceiling_le_iff)
  have "ilog2 x = - int k"
    using False by (simp add: ilog2_def y_def m_def k_def)
  then have "pow2 (ilog2 x) = 1 / 2 ^ k"
    using k by (simp add: pow2_def)
  also have "\<dots> \<le> \<bar>x\<bar>"
    using yk xp by (simp add: y_def field_simps)
  finally show ?thesis .
qed

lemma ilog2_less:
  assumes "x \<noteq> 0" and "\<bar>x\<bar> < 2 ^ K"
  shows "ilog2 x < int K"
proof -
  have "pow2 (ilog2 x) < pow2 (int K)"
    using ilog2_lower [OF assms(1)] assms(2) by (simp add: pow2_nat)
  then show ?thesis by (rule pow2_less_imp)
qed

text \<open>The exponent \<open>fl\<close> rounds at.\<close>

lemma fl_exponent:
  assumes "x \<noteq> 0" and "\<bar>x\<bar> < 2 ^ K" and "K \<le> 53"
  obtains j where "fl x = of_int (round_half_even (x * 2 ^ j)) / 2 ^ j" and "53 \<le> j + K"
proof -
  define e where "e = max (ilog2 x - 52) (- 1074)"
  have "ilog2 x < int K" using assms(1,2) by (rule ilog2_less)
  then have e: "e \<le> int K - 53" "e \<le> 0"
    using assms(3) by (simp_all add: e_def)
  define j where "j = nat (- e)"
  have p: "pow2 e = 1 / 2 ^ j"
    using e(2) by (simp add: pow2_nonpos j_def)
  have "fl x = of_int (round_half_even (x / pow2 e)) * pow2 e"
    using assms(1) by (simp add: fl_def e_def Let_def)
  then have "fl x = of_int (round_half_even (x * 2 ^ j)) / 2 ^ j"
    by (simp add: p)
  moreover have "53 \<le> j + K"
    using e by (simp add: j_def)
  ultimately show thesis by (rule that)
qed

lemma fl_of_int:
  assumes "\<bar>n\<bar> < 2 ^ 53"
  shows "fl (of_int n) = of_int n"
proof (cases "n = 0")
  case True
  then show ?thesis by (simp add: fl_def)
next
  case False
  have "\<bar>of_int n :: rat\<bar> < 2 ^ 53"
    using assms by (metis of_int_abs of_int_less_iff of_int_numeral of_int_power)
  with False obtain j where j: "fl (of_int n) = of_int (round_half_even (of_int n * 2 ^ j)) / 2 ^ j"
    using fl_exponent [of "of_int n" 53] by auto
  have "(of_int n :: rat) * 2 ^ j = of_int (n * 2 ^ j)" by simp
  then have "round_half_even (of_int n * 2 ^ j) = n * 2 ^ j"
    by (simp only: rhe_of_int)
  with j show ?thesis by simp
qed

lemma fl_nonneg:
  assumes "0 \<le> x"
  shows "0 \<le> fl x"
proof (cases "x = 0")
  case True
  then show ?thesis by (simp add: fl_def)
next
  case False
  have "0 \<le> x / pow2 (max (ilog2 x - 52) (- 1074))"
    using assms pow2_pos by (simp add: less_imp_le)
  then have "0 \<le> round_half_even (x / pow2 (max (ilog2 x - 52) (- 1074)))"
    using rhe_ge_int [of 0] by simp
  then show ?thesis
    using False pow2_pos by (simp add: fl_def Let_def less_imp_le)
qed

lemma fl_le_int:
  assumes "0 < x" and "x \<le> of_int N" and "x < 2 ^ 53"
  shows "fl x \<le> of_int N"
proof -
  from assms obtain j where j: "fl x = of_int (round_half_even (x * 2 ^ j)) / 2 ^ j"
    using fl_exponent [of x 53] by auto
  have "x * 2 ^ j \<le> of_int (N * 2 ^ j)"
    using assms(2) by simp
  then have "round_half_even (x * 2 ^ j) \<le> N * 2 ^ j"
    by (rule rhe_le_int)
  then have "(of_int (round_half_even (x * 2 ^ j)) :: rat) \<le> of_int (N * 2 ^ j)"
    by (simp only: of_int_le_iff)
  then show ?thesis
    by (simp add: j field_simps)
qed

lemma fl_err:
  assumes "x \<noteq> 0" and "\<bar>x\<bar> < 2 ^ 9"
  shows "\<bar>fl x - x\<bar> \<le> 1 / 2 ^ 45"
proof -
  from assms obtain j where j: "fl x = of_int (round_half_even (x * 2 ^ j)) / 2 ^ j"
    and k: "44 \<le> j"
    using fl_exponent [of x 9] by auto
  have "fl x - x = (of_int (round_half_even (x * 2 ^ j)) - x * 2 ^ j) / 2 ^ j"
    by (simp add: j field_simps)
  then have "\<bar>fl x - x\<bar> = \<bar>of_int (round_half_even (x * 2 ^ j)) - x * 2 ^ j\<bar> / 2 ^ j"
    by (simp add: abs_divide)
  also have "\<dots> \<le> (1 / 2) / 2 ^ j"
    by (intro divide_right_mono rhe_err) simp
  also have "\<dots> \<le> (1 / 2) / 2 ^ 44"
  proof -
    have "(2 :: rat) ^ 44 \<le> 2 ^ j"
      using k by (intro power_increasing) simp_all
    then show ?thesis
      by (intro frac_le) simp_all
  qed
  finally show ?thesis by simp
qed

lemma round_coord_exact:
  assumes t: "0 < t"
    and r: "0 \<le> x + of_int sh" "x + of_int sh < of_int N"
    and N: "N \<le> 512" "0 \<le> sh" "sh \<le> 512"
  defines "y \<equiv> fl (x + of_int sh)"
  defines "k \<equiv> \<lfloor>y / of_int t\<rfloor>"
  shows "round_coord x sh t = Inr (of_int (k * t) - of_int sh)"
    and "0 \<le> k"
    and "of_int (k * t) \<le> y"
    and "y < of_int (k * t) + of_int t"
proof -
  have tp: "(0 :: rat) < of_int t" using t by simp
  have y0: "0 \<le> y" unfolding y_def using r(1) by (rule fl_nonneg)
  have yN: "y \<le> of_int N"
  proof (cases "x + of_int sh = 0")
    case True
    then show ?thesis using r(2) by (simp add: y_def fl_def)
  next
    case False
    have "x + of_int sh < 2 ^ 53"
    proof -
      have "(of_int N :: rat) \<le> of_int 512" using N(1) by (simp only: of_int_le_iff)
      with r(2) show ?thesis by simp
    qed
    with False r show ?thesis unfolding y_def by (intro fl_le_int) simp_all
  qed
  show k0: "0 \<le> k"
    unfolding k_def using y0 tp by (simp add: zero_le_floor)
  have "of_int k \<le> y / of_int t" unfolding k_def by simp
  then show lo: "of_int (k * t) \<le> y"
    using tp by (simp add: pos_le_divide_eq)
  have "y / of_int t < of_int k + 1" unfolding k_def by linarith
  then have "y < (of_int k + 1) * of_int t"
    using tp by (simp add: pos_divide_less_eq)
  then show "y < of_int (k * t) + of_int t"
    by (simp add: algebra_simps)
  have "(of_int (k * t) :: rat) \<le> of_int N" using lo yN by (rule order_trans)
  then have ktN: "k * t \<le> N" by (simp only: of_int_le_iff)
  have kt0: "0 \<le> k * t" using k0 t by simp
  have "k * 1 \<le> k * t" using k0 t by (intro mult_left_mono) simp_all
  then have kN: "k \<le> N" using ktN by simp
  have e1: "fl (of_int k) = of_int k"
    using k0 kN N(1) by (intro fl_of_int) simp
  have e2: "fl (of_int (k * t)) = of_int (k * t)"
    using kt0 ktN N(1) by (intro fl_of_int) simp
  have e3: "fl (of_int (k * t - sh)) = of_int (k * t - sh)"
    using kt0 ktN N by (intro fl_of_int) simp
  show "round_coord x sh t = Inr (of_int (k * t) - of_int sh)"
    using t
    by (simp add: round_coord_def py_floordiv_def y_def [symmetric] k_def [symmetric]
        e1 e2 [unfolded of_int_mult] e3 [unfolded of_int_diff of_int_mult])
qed

lemma shift_err:
  assumes "0 \<le> x + of_int sh" and "x + of_int sh < 512"
  shows "\<bar>(fl (x + of_int sh) - of_int sh) - x\<bar> \<le> 1 / 2 ^ 45"
proof (cases "x + of_int sh = 0")
  case True
  then show ?thesis by (simp add: fl_def)
next
  case False
  with assms have "\<bar>fl (x + of_int sh) - (x + of_int sh)\<bar> \<le> 1 / 2 ^ 45"
    by (intro fl_err) simp_all
  then show ?thesis by (simp add: algebra_simps)
qed

text \<open>
  Claim C10, as stated, fails. On the T6 tiling system the point with longitude
  \<open>-1e-20\<close> and latitude \<open>0\<close> lies in the tile whose lower-left longitude is \<open>-6\<close>, but
  the float sum \<open>-1e-20 + 180\<close> is \<open>180.0\<close> and the returned lower-left longitude is \<open>0\<close>,
  east of the point.
\<close>

theorem lowerleft_rounding_counterexample:
  "- 180 \<le> float_lit (- 1) 20 \<and> float_lit (- 1) 20 < 180 \<and>
   round_lonlat2lowerleft \<lparr>tag = ''GL'', sampling = float_lit 6 4, tiletype = ''T6'', tile_xsize_m = 6, tile_ysize_m = 6\<rparr> (float_lit (- 1) 20) 0 = Inr (0, 0) \<and>
   \<not> (0 \<le> float_lit (- 1) 20)"
proof -
  have l: "float_lit (- 1) 20 = - (6646139978924579 / 664613997892457936451903530140172288)"
    by (simp add: float_lit_def fl_ev floor_neg_rat_numeral ceiling_neg_rat_numeral)
  have s: "fl (119630519620642428561335989285252087261 / 664613997892457936451903530140172288) = 180"
    by (simp add: fl_ev)
  have z: "fl 30 = 30" "fl 15 = 15" "fl 180 = 180" "fl 90 = 90" "fl 0 = 0"
    by (simp_all add: fl_ev)
  have "round_lonlat2lowerleft \<lparr>tag = ''GL'', sampling = float_lit 6 4, tiletype = ''T6'', tile_xsize_m = 6, tile_ysize_m = 6\<rparr> (- (6646139978924579 / 664613997892457936451903530140172288)) 0 = Inr (0, 0)"
    apply (simp add: round_lonlat2lowerleft_def round_coord_def py_floordiv_def s)
    apply (simp add: z floor_rat_numeral)
    done
  then show ?thesis by (simp add: l)
qed

text \<open>
  Claim C10, amended. For every float \<open>lon\<close> in \<open>[-180, 180)\<close> and \<open>lat\<close> in \<open>[-90, 90)\<close>
  and positive tile sizes, \<open>round_lonlat2lowerleft\<close> returns \<open>(ll_lon, ll_lat)\<close> such that
  \<open>ll_lon + 180\<close> and \<open>ll_lat + 90\<close> are non-negative integer multiples of the tile size,
  and the tile holds the point as the code sees it after the shift:
  \<open>ll_lon \<le> lon' < ll_lon + tilesize\<close> and \<open>ll_lat \<le> lat' < ll_lat + tilesize\<close>, where
  \<open>lon'\<close> is the float sum \<open>lon + 180\<close> minus 180 and \<open>lat'\<close> is the float sum \<open>lat + 90\<close>
  minus 90. They differ from \<open>lon\<close> and \<open>lat\<close> by at most \<open>2 ^ -45\<close> degrees, and not at
  all when the sums are exact.
\<close>

theorem lowerleft_holds_shifted_point:
  assumes "0 < tile_xsize_m c" and "0 < tile_ysize_m c"
    and "- 180 \<le> lon" and "lon < 180" and "- 90 \<le> lat" and "lat < 90"
  shows "\<exists>kx ky. 0 \<le> kx \<and> 0 \<le> ky \<and>
           round_lonlat2lowerleft c lon lat =
             Inr (of_int (kx * tile_xsize_m c) - 180, of_int (ky * tile_ysize_m c) - 90) \<and>
           of_int (kx * tile_xsize_m c) - 180 \<le> fl (lon + 180) - 180 \<and>
           fl (lon + 180) - 180 < of_int (kx * tile_xsize_m c) - 180 + of_int (tile_xsize_m c) \<and>
           of_int (ky * tile_ysize_m c) - 90 \<le> fl (lat + 90) - 90 \<and>
           fl (lat + 90) - 90 < of_int (ky * tile_ysize_m c) - 90 + of_int (tile_ysize_m c) \<and>
           \<bar>(fl (lon + 180) - 180) - lon\<bar> \<le> 1 / 2 ^ 45 \<and>
           \<bar>(fl (lat + 90) - 90) - lat\<bar> \<le> 1 / 2 ^ 45"
proof -
  define kx where "kx = \<lfloor>fl (lon + 180) / of_int (tile_xsize_m c)\<rfloor>"
  define ky where "ky = \<lfloor>fl (lat + 90) / of_int (tile_ysize_m c)\<rfloor>"
  have rx: "0 \<le> lon + of_int 180" "lon + of_int 180 < of_int 360"
    using assms(3,4) by simp_all
  have ry: "0 \<le> lat + of_int 90" "lat + of_int 90 < of_int 180"
    using assms(5,6) by simp_all
  note x = round_coord_exact [OF assms(1) rx, folded kx_def, simplified]
  note y = round_coord_exact [OF assms(2) ry, folded ky_def, simplified]
  have ex: "\<bar>(fl (lon + of_int 180) - of_int 180) - lon\<bar> \<le> 1 / 2 ^ 45"
    using rx by (intro shift_err) simp_all
  have ey: "\<bar>(fl (lat + of_int 90) - of_int 90) - lat\<bar> \<le> 1 / 2 ^ 45"
    using ry by (intro shift_err) simp_all
  have "round_lonlat2lowerleft c lon lat =
      Inr (of_int (kx * tile_xsize_m c) - 180, of_int (ky * tile_ysize_m c) - 90)"
    using x(1) y(1) by (simp add: round_lonlat2lowerleft_def kx_def ky_def)
  with x(2-) y(2-) ex ey show ?thesis
    apply -
    apply (rule exI [of _ kx], rule exI [of _ ky])
    apply (simp add: kx_def ky_def)
    done
qed

theorem lowerleft_holds_shifted_point_witness:
  "0 < tile_xsize_m \<lparr>tag = ''GL'', sampling = float_lit 6 4, tiletype = ''T6'', tile_xsize_m = 6, tile_ysize_m = 6\<rparr> \<and> 0 < tile_ysize_m \<lparr>tag = ''GL'', sampling = float_lit 6 4, tiletype = ''T6'', tile_xsize_m = 6, tile_ysize_m = 6\<rparr> \<and>
   - 180 \<le> float_lit (- 713456) 4 \<and> float_lit (- 713456) 4 < 180 \<and>
   - 90 \<le> float_lit (- 15432) 4 \<and> float_lit (- 15432) 4 < 90 \<and>
   round_lonlat2lowerleft \<lparr>tag = ''GL'', sampling = float_lit 6 4, tiletype = ''T6'', tile_xsize_m = 6, tile_ysize_m = 6\<rparr> (float_lit (- 713456) 4) (float_lit (- 15432) 4) = Inr (- 72, - 6)"
proof -
  have l: "float_lit (- 713456) 4 = - (5020500274601945 / 70368744177664)" "float_lit (- 15432) 4 = - (6949954944958149 / 4503599627370496)"
    by (simp_all add: float_lit_def fl_ev floor_neg_rat_numeral ceiling_neg_rat_numeral)
  have s: "fl (7645873677377575 / 70368744177664) = 7645873677377575 / 70368744177664" "fl (398374011518386491 / 4503599627370496) = 6224593929974789 / 70368744177664"
    by (simp_all add: fl_ev)
  have z: "fl 18 = 18" "fl 14 = 14" "fl 108 = 108" "fl 84 = 84" "fl (- 72) = - 72" "fl (- 6) = - 6"
    by (simp_all add: fl_ev floor_neg_rat_numeral ceiling_neg_rat_numeral)
  have r: "round_lonlat2lowerleft \<lparr>tag = ''GL'', sampling = float_lit 6 4, tiletype = ''T6'', tile_xsize_m = 6, tile_ysize_m = 6\<rparr> (- (5020500274601945 / 70368744177664)) (- (6949954944958149 / 4503599627370496)) = Inr (- 72, - 6)"
    apply (simp add: round_lonlat2lowerleft_def round_coord_def py_floordiv_def s)
    apply (simp add: z floor_rat_numeral)
    done
  from lowerleft_holds_shifted_point [of "\<lparr>tag = ''GL'', sampling = float_lit 6 4, tiletype = ''T6'', tile_xsize_m = 6, tile_ysize_m = 6\<rparr>" "float_lit (- 713456) 4" "float_lit (- 15432) 4"] r
  show ?thesis by (simp add: l)
qed

end
